theory Spec2Isabelle
  imports Complex_Main
begin

section \<open>Vectors, planes and buffer geometries\<close>

text \<open>
  The editor stores every coordinate as a JavaScript number. The model takes numbers to
  be real numbers: rounding is not modelled. A \<open>THREE.Vector3\<close> is a triple of numbers;
  the methods of the three.js library that \<open>src/app.js\<close> calls on it are written out
  below after the library's documented behaviour.
\<close>

datatype vec3 = Vector3 (vx: real) (vy: real) (vz: real)

definition sub :: "vec3 \<Rightarrow> vec3 \<Rightarrow> vec3" where
  "sub a b = Vector3 (vx a - vx b) (vy a - vy b) (vz a - vz b)"

definition add :: "vec3 \<Rightarrow> vec3 \<Rightarrow> vec3" where
  "add a b = Vector3 (vx a + vx b) (vy a + vy b) (vz a + vz b)"

definition multiplyScalar :: "vec3 \<Rightarrow> real \<Rightarrow> vec3" where
  "multiplyScalar a k = Vector3 (vx a * k) (vy a * k) (vz a * k)"

definition dot :: "vec3 \<Rightarrow> vec3 \<Rightarrow> real" where
  "dot a b = vx a * vx b + vy a * vy b + vz a * vz b"

definition cross :: "vec3 \<Rightarrow> vec3 \<Rightarrow> vec3" where
  "cross a b = Vector3 (vy a * vz b - vz a * vy b)
                       (vz a * vx b - vx a * vz b)
                       (vx a * vy b - vy a * vx b)"

definition vlength :: "vec3 \<Rightarrow> real" where
  "vlength a = sqrt (vx a * vx a + vy a * vy a + vz a * vz a)"

definition distanceTo :: "vec3 \<Rightarrow> vec3 \<Rightarrow> real" where
  "distanceTo a b = vlength (sub a b)"

text \<open>
  \<open>normalize()\<close> is \<open>divideScalar(length() || 1)\<close>: a vector of length zero is divided
  by one and stays the zero vector.
\<close>

definition normalize :: "vec3 \<Rightarrow> vec3" where
  "normalize a = multiplyScalar a (1 / (if vlength a = 0 then 1 else vlength a))"

record plane =
  plane_normal :: vec3
  plane_d :: real

text \<open>
  A \<open>BufferGeometry\<close>: the position attribute has item size 3, so it is kept as one
  entry per vertex; the optional index buffer is read three entries at a time, so it is
  kept as one entry per triangle.
\<close>

record geometry =
  positions :: "vec3 list"
  index :: "(nat \<times> nat \<times> nat) list option"

record material =
  material_clippingPlanes :: "plane list option"
  clipIntersection :: bool

record mesh =
  uuid :: string
  geometry :: geometry
  material :: material
  visible :: bool

record planeData = plane +
  direction :: string

record segments =
  width :: int
  height :: int

section \<open>The editor state\<close>

text \<open>
  The fields of \<open>WebGPUGlobe\<close> that the clipping engine, the polygon transformer, the
  sculptor and the resolution controls read or write. \<open>clipCrust\<close>, \<open>clipMantle\<close> and
  \<open>clipCore\<close> are the \<open>checked\<close> flags of the three enrolment checkboxes of the page.
  \<open>this.terrain\<close> is assigned once, to the crust mesh, so the crust field stands for both.
\<close>

record globe =
  isWebGPURenderer :: bool
  crust :: "mesh option"
  mantle :: "mesh option"
  core :: "mesh option"
  clippingPolygon :: "vec3 list option"
  originalPolygonPoints :: "vec3 list option"
  originalGeometries :: "string \<rightharpoonup> geometry"
  clippingDirection :: string
  realtimeClipping :: bool
  clippingPlanes :: "string \<rightharpoonup> planeData list"
  polygonAxis :: string
  polygonPosition :: real
  polygonRotationAxis :: string
  polygonRotation :: real
  polygonWidth :: real
  polygonHeight :: real
  clipCrust :: bool
  clipMantle :: bool
  clipCore :: bool
  brushSize :: real
  mode :: string
  intensity :: real
  currentSegments :: segments

section \<open>Geometry-partition clipping\<close>

text \<open>First loop of \<open>applyGeometryClipping\<close>: the visibility flag of one vertex.\<close>

definition shouldShow :: "string \<Rightarrow> plane \<Rightarrow> vec3 \<Rightarrow> bool" where
  "shouldShow dir clippingPlane vertex =
     (let distance = dot (plane_normal clippingPlane) vertex + plane_d clippingPlane
      in if dir = ''outside'' then distance > 0 else distance < 0)"

definition vertexVisibility :: "string \<Rightarrow> plane \<Rightarrow> vec3 list \<Rightarrow> bool list" where
  "vertexVisibility dir clippingPlane ps = map (shouldShow dir clippingPlane) ps"

text \<open>
  Second loop: walk the vertices with the old index \<open>i\<close>, push the visible ones and
  record \<open>vertexMap.set(i, newVertexIndex)\<close>.
\<close>

fun compactLoop ::
  "nat \<Rightarrow> bool list \<Rightarrow> vec3 list \<Rightarrow> vec3 list \<Rightarrow> (nat \<rightharpoonup> nat) \<Rightarrow> nat
     \<Rightarrow> vec3 list \<times> (nat \<rightharpoonup> nat)" where
  "compactLoop i (v # vis) (p # ps) newPositions vertexMap newVertexIndex =
     (if v
      then compactLoop (Suc i) vis ps (newPositions @ [p])
             (vertexMap(i \<mapsto> newVertexIndex)) (Suc newVertexIndex)
      else compactLoop (Suc i) vis ps newPositions vertexMap newVertexIndex)"
| "compactLoop i _ _ newPositions vertexMap newVertexIndex = (newPositions, vertexMap)"

text \<open>
  Third loop: \<open>vertexVisibility[a]\<close> of an index beyond the array is \<open>undefined\<close>, which
  is falsy. \<open>vertexMap.get\<close> is only reached for visible vertices, which all have an
  entry; an absent entry would be stored as 0 by the typed index array.
\<close>

definition isVisible :: "bool list \<Rightarrow> nat \<Rightarrow> bool" where
  "isVisible vis a = (a < length vis \<and> vis ! a)"

definition mapGet :: "(nat \<rightharpoonup> nat) \<Rightarrow> nat \<Rightarrow> nat" where
  "mapGet vertexMap a = (case vertexMap a of Some k \<Rightarrow> k | None \<Rightarrow> 0)"

fun indexLoop ::
  "bool list \<Rightarrow> (nat \<rightharpoonup> nat) \<Rightarrow> (nat \<times> nat \<times> nat) list \<Rightarrow> (nat \<times> nat \<times> nat) list
     \<Rightarrow> (nat \<times> nat \<times> nat) list" where
  "indexLoop vis vertexMap [] newIndices = newIndices"
| "indexLoop vis vertexMap ((a, b, c) # rest) newIndices =
     (if isVisible vis a \<and> isVisible vis b \<and> isVisible vis c
      then indexLoop vis vertexMap rest
             (newIndices @ [(mapGet vertexMap a, mapGet vertexMap b, mapGet vertexMap c)])
      else indexLoop vis vertexMap rest newIndices)"

text \<open>
  The new geometry built from the stored original: the index is set only when at least
  one triangle survived.
\<close>

definition clipGeometry :: "string \<Rightarrow> plane \<Rightarrow> geometry \<Rightarrow> geometry" where
  "clipGeometry dir clippingPlane originalGeometry =
     (let ps = positions originalGeometry;
          vis = vertexVisibility dir clippingPlane ps;
          (newPositions, vertexMap) = compactLoop 0 vis ps [] Map.empty 0;
          newIndices = (case index originalGeometry of
                          None \<Rightarrow> []
                        | Some indices \<Rightarrow> indexLoop vis vertexMap indices [])
      in \<lparr> positions = newPositions,
           index = (if newIndices \<noteq> [] then Some newIndices else None) \<rparr>)"

text \<open>
  \<open>applyGeometryClipping(mesh, clippingPlane)\<close>: the original geometry is stored under the
  mesh's uuid if none is stored yet, and the mesh receives the geometry rebuilt from the
  stored one. The mesh is returned with the state, and the caller puts it back.
\<close>

definition applyGeometryClipping :: "globe \<Rightarrow> mesh \<Rightarrow> plane \<Rightarrow> globe \<times> mesh" where
  "applyGeometryClipping s m clippingPlane =
     (let meshId = uuid m;
          s1 = (case originalGeometries s meshId of
                  None \<Rightarrow> s\<lparr>originalGeometries := (originalGeometries s)(meshId \<mapsto> geometry m)\<rparr>
                | Some _ \<Rightarrow> s)
      in case originalGeometries s1 meshId of
           None \<Rightarrow> (s1, m)
         | Some originalGeometry \<Rightarrow>
             (s1, m\<lparr>geometry := clipGeometry (clippingDirection s1) clippingPlane originalGeometry\<rparr>))"

section \<open>The clipping plane solver\<close>

text \<open>
  \<open>calculateClippingPlane()\<close> reads \<open>this.clippingPolygon\<close>, which both callers have
  checked to be an array; the model takes the array. The only failure it reports is an
  array of fewer than three points.
\<close>

definition calculateClippingPlane :: "vec3 list \<Rightarrow> plane option" where
  "calculateClippingPlane polygon =
     (case polygon of
        p0 # p1 # p2 # _ \<Rightarrow>
          (let v1 = sub p1 p0;
               v2 = sub p2 p0;
               normal = normalize (cross v1 v2);
               d = - dot normal p0
           in Some \<lparr> plane_normal = normal, plane_d = d \<rparr>)
      | _ \<Rightarrow> None)"

section \<open>Applying and restoring clipping on a layer\<close>

definition layerMesh :: "globe \<Rightarrow> string \<Rightarrow> mesh option" where
  "layerMesh s targetLayer =
     (if targetLayer = ''crust'' then crust s
      else if targetLayer = ''mantle'' then mantle s
      else if targetLayer = ''core'' then core s
      else None)"

text \<open>The layer's mesh object is mutated in place; the model writes the mesh back.\<close>

definition putLayer :: "globe \<Rightarrow> string \<Rightarrow> mesh \<Rightarrow> globe" where
  "putLayer s targetLayer m =
     (if targetLayer = ''crust'' then s\<lparr>crust := Some m\<rparr>
      else if targetLayer = ''mantle'' then s\<lparr>mantle := Some m\<rparr>
      else if targetLayer = ''core'' then s\<lparr>core := Some m\<rparr>
      else s)"

definition ensureClippingPlanes :: "globe \<Rightarrow> string \<Rightarrow> globe" where
  "ensureClippingPlanes s meshId =
     (case clippingPlanes s meshId of
        None \<Rightarrow> s\<lparr>clippingPlanes := (clippingPlanes s)(meshId \<mapsto> [])\<rparr>
      | Some _ \<Rightarrow> s)"

definition applyWebGPUClipping :: "globe \<Rightarrow> mesh \<Rightarrow> plane \<Rightarrow> globe \<times> mesh" where
  "applyWebGPUClipping s m clippingPlane =
     (let s1 = ensureClippingPlanes s (uuid m);
          entry = \<lparr> plane_normal = plane_normal clippingPlane, plane_d = plane_d clippingPlane,
                    direction = clippingDirection s1 \<rparr>;
          stored = (case clippingPlanes s1 (uuid m) of None \<Rightarrow> [] | Some l \<Rightarrow> l);
          s2 = s1\<lparr>clippingPlanes := (clippingPlanes s1)(uuid m \<mapsto> stored @ [entry])\<rparr>
      in applyGeometryClipping s2 m clippingPlane)"

definition applyMaterialClipping :: "globe \<Rightarrow> mesh \<Rightarrow> plane \<Rightarrow> globe \<times> mesh" where
  "applyMaterialClipping s m clippingPlane =
     (if isWebGPURenderer s then applyWebGPUClipping s m clippingPlane
      else
        let pl = \<lparr> plane_normal = plane_normal clippingPlane, plane_d = plane_d clippingPlane \<rparr>;
            s1 = ensureClippingPlanes s (uuid m);
            mat = material m;
            planes = (case material_clippingPlanes mat of
                        Some existing \<Rightarrow> existing @ [pl]
                      | None \<Rightarrow> [pl]);
            mat' = mat\<lparr> material_clippingPlanes := Some planes,
                       clipIntersection := (clippingDirection s1 = ''inside'') \<rparr>
        in (s1, m\<lparr>material := mat'\<rparr>))"

definition clipSphereWithPolygon :: "globe \<Rightarrow> string \<Rightarrow> globe" where
  "clipSphereWithPolygon s targetLayer =
     (case clippingPolygon s of
        None \<Rightarrow> s
      | Some polygon \<Rightarrow>
          if length polygon < 3 then s
          else (case layerMesh s targetLayer of
                  None \<Rightarrow> s
                | Some targetMesh \<Rightarrow>
                    (case calculateClippingPlane polygon of
                       None \<Rightarrow> s
                     | Some clippingPlane \<Rightarrow>
                         (let (s', m') = applyMaterialClipping s targetMesh clippingPlane
                          in putLayer s' targetLayer m'))))"

definition restoreOriginalGeometry :: "globe \<Rightarrow> string \<Rightarrow> globe" where
  "restoreOriginalGeometry s targetLayer =
     (case layerMesh s targetLayer of
        None \<Rightarrow> s
      | Some targetMesh \<Rightarrow>
          (let m' =
                 (if isWebGPURenderer s
                  then (case originalGeometries s (uuid targetMesh) of
                          Some g \<Rightarrow> targetMesh\<lparr>geometry := g\<rparr>
                        | None \<Rightarrow> targetMesh)
                  else (case material_clippingPlanes (material targetMesh) of
                          Some _ \<Rightarrow>
                            targetMesh\<lparr>material :=
                              (material targetMesh)\<lparr>material_clippingPlanes := Some []\<rparr>\<rparr>
                        | None \<Rightarrow> targetMesh));
               s1 = putLayer s targetLayer m'
           in s1\<lparr>clippingPlanes := (clippingPlanes s1)(uuid targetMesh := None)\<rparr>))"

definition updateMaterialClipping :: "globe \<Rightarrow> string \<Rightarrow> globe" where
  "updateMaterialClipping s targetLayer =
     (case clippingPolygon s of
        None \<Rightarrow> s
      | Some polygon \<Rightarrow>
          if length polygon < 3 then s
          else (case layerMesh s targetLayer of
                 None \<Rightarrow> s
               | Some targetMesh \<Rightarrow>
                   (case calculateClippingPlane polygon of
                      None \<Rightarrow> s
                    | Some clippingPlane \<Rightarrow>
                        (let mat = material targetMesh;
                             pl = \<lparr> plane_normal = plane_normal clippingPlane,
                                    plane_d = plane_d clippingPlane \<rparr>;
                             mat' = (case material_clippingPlanes mat of
                                       Some (_ # others) \<Rightarrow>
                                         mat\<lparr>material_clippingPlanes := Some (pl # others)\<rparr>
                                     | _ \<Rightarrow>
                                         mat\<lparr> material_clippingPlanes := Some [pl],
                                              clipIntersection :=
                                                (clippingDirection s = ''inside'') \<rparr>)
                         in putLayer s targetLayer (targetMesh\<lparr>material := mat'\<rparr>)))))"

section \<open>The layer manager\<close>

definition presentVisible :: "mesh option \<Rightarrow> bool" where
  "presentVisible layer = (case layer of None \<Rightarrow> False | Some m \<Rightarrow> visible m)"

definition restoreAllLayers :: "globe \<Rightarrow> globe" where
  "restoreAllLayers s =
     restoreOriginalGeometry
       (restoreOriginalGeometry (restoreOriginalGeometry s ''crust'') ''mantle'') ''core''"

definition reapplyClippingToAllLayers :: "globe \<Rightarrow> globe" where
  "reapplyClippingToAllLayers s =
     (let s1 = restoreOriginalGeometry s ''crust'';
          s2 = restoreOriginalGeometry s1 ''mantle'';
          s3 = restoreOriginalGeometry s2 ''core'';
          s4 = (if presentVisible (crust s3) then clipSphereWithPolygon s3 ''crust'' else s3);
          s5 = (if presentVisible (mantle s4) then clipSphereWithPolygon s4 ''mantle'' else s4)
      in if presentVisible (core s5) then clipSphereWithPolygon s5 ''core'' else s5)"

text \<open>The change listener of the \<open>clippingDirection\<close> select.\<close>

definition onClippingDirectionChange :: "globe \<Rightarrow> string \<Rightarrow> globe" where
  "onClippingDirectionChange s v = reapplyClippingToAllLayers (s\<lparr>clippingDirection := v\<rparr>)"

definition applyClippingToSelectedLayers :: "globe \<Rightarrow> globe" where
  "applyClippingToSelectedLayers s =
     (let crustSelected = clipCrust s;
          mantleSelected = clipMantle s;
          coreSelected = clipCore s;
          s1 = (if crustSelected \<and> presentVisible (crust s)
                then clipSphereWithPolygon s ''crust'' else s);
          s2 = (if mantleSelected \<and> presentVisible (mantle s1)
                then clipSphereWithPolygon s1 ''mantle'' else s1)
      in if coreSelected \<and> presentVisible (core s2)
         then clipSphereWithPolygon s2 ''core'' else s2)"

definition applyRealtimeClipping :: "globe \<Rightarrow> globe" where
  "applyRealtimeClipping s =
     (if isWebGPURenderer s then
        (let crustSelected = clipCrust s;
             mantleSelected = clipMantle s;
             coreSelected = clipCore s;
             s1 = (if crustSelected \<and> presentVisible (crust s)
                   then clipSphereWithPolygon s ''crust'' else s);
             s2 = (if mantleSelected \<and> presentVisible (mantle s1)
                   then clipSphereWithPolygon s1 ''mantle'' else s1)
         in if coreSelected \<and> presentVisible (core s2)
            then clipSphereWithPolygon s2 ''core'' else s2)
      else
        (let s1 = (if presentVisible (crust s) then updateMaterialClipping s ''crust'' else s);
             s2 = (if presentVisible (mantle s1) then updateMaterialClipping s1 ''mantle'' else s1)
         in if presentVisible (core s2) then updateMaterialClipping s2 ''core'' else s2))"

definition updateClippingOnPolygonMove :: "globe \<Rightarrow> globe" where
  "updateClippingOnPolygonMove s =
     (if \<not> realtimeClipping s then s
      else
        let crustSelected = clipCrust s;
            mantleSelected = clipMantle s;
            coreSelected = clipCore s
        in if isWebGPURenderer s then
             (let s1 = (if crustSelected \<and> presentVisible (crust s)
                        then clipSphereWithPolygon s ''crust'' else s);
                  s2 = (if mantleSelected \<and> presentVisible (mantle s1)
                        then clipSphereWithPolygon s1 ''mantle'' else s1)
              in if coreSelected \<and> presentVisible (core s2)
                 then clipSphereWithPolygon s2 ''core'' else s2)
           else
             (let s1 = (if crustSelected \<and> presentVisible (crust s)
                        then updateMaterialClipping s ''crust'' else s);
                  s2 = (if mantleSelected \<and> presentVisible (mantle s1)
                        then updateMaterialClipping s1 ''mantle'' else s1)
              in if coreSelected \<and> presentVisible (core s2)
                 then updateMaterialClipping s2 ''core'' else s2))"

section \<open>The polygon transformer\<close>

text \<open>
  \<open>THREE.Matrix4\<close>, with its sixteen entries in the row-major order of \<open>Matrix4.set\<close>.
  A new matrix is the identity; \<open>makeRotationX/Y/Z\<close> and \<open>Vector3.applyMatrix4\<close> follow
  the library (the latter divides by the perspective component).
\<close>

datatype matrix4 =
  Matrix4 real real real real  real real real real  real real real real  real real real real

definition identity4 :: matrix4 where
  "identity4 = Matrix4 1 0 0 0  0 1 0 0  0 0 1 0  0 0 0 1"

definition makeRotationX :: "real \<Rightarrow> matrix4" where
  "makeRotationX theta =
     (let c = cos theta; s = sin theta in Matrix4 1 0 0 0  0 c (- s) 0  0 s c 0  0 0 0 1)"

definition makeRotationY :: "real \<Rightarrow> matrix4" where
  "makeRotationY theta =
     (let c = cos theta; s = sin theta in Matrix4 c 0 s 0  0 1 0 0  (- s) 0 c 0  0 0 0 1)"

definition makeRotationZ :: "real \<Rightarrow> matrix4" where
  "makeRotationZ theta =
     (let c = cos theta; s = sin theta in Matrix4 c (- s) 0 0  s c 0 0  0 0 1 0  0 0 0 1)"

fun applyMatrix4 :: "vec3 \<Rightarrow> matrix4 \<Rightarrow> vec3" where
  "applyMatrix4 (Vector3 x y z)
       (Matrix4 n11 n12 n13 n14  n21 n22 n23 n24  n31 n32 n33 n34  n41 n42 n43 n44) =
     (let w = 1 / (n41 * x + n42 * y + n43 * z + n44)
      in Vector3 ((n11 * x + n12 * y + n13 * z + n14) * w)
                 ((n21 * x + n22 * y + n23 * z + n24) * w)
                 ((n31 * x + n32 * y + n33 * z + n34) * w))"

definition rotationMatrix :: "string \<Rightarrow> real \<Rightarrow> matrix4" where
  "rotationMatrix axis rotationRadians =
     (if axis = ''x'' then makeRotationX rotationRadians
      else if axis = ''y'' then makeRotationY rotationRadians
      else if axis = ''z'' then makeRotationZ rotationRadians
      else identity4)"

definition moveAlong :: "string \<Rightarrow> real \<Rightarrow> vec3 \<Rightarrow> vec3" where
  "moveAlong axis amount point =
     (if axis = ''x'' then Vector3 (vx point + amount) (vy point) (vz point)
      else if axis = ''y'' then Vector3 (vx point) (vy point + amount) (vz point)
      else if axis = ''z'' then Vector3 (vx point) (vy point) (vz point + amount)
      else point)"

text \<open>The body of the \<open>forEach\<close> of \<open>updatePolygonPosition\<close>, from the original point.\<close>

definition positionPoint :: "globe \<Rightarrow> vec3 \<Rightarrow> vec3" where
  "positionPoint s originalPoint =
     (let point = originalPoint;
          point = (if polygonRotation s \<noteq> 0
                   then applyMatrix4 point
                          (rotationMatrix (polygonRotationAxis s) ((polygonRotation s * pi) / 180))
                   else point)
      in moveAlong (polygonAxis s) (polygonPosition s) point)"

text \<open>The body of the \<open>forEach\<close> of \<open>updatePolygonTransform\<close>, from the original point.\<close>

definition transformPoint :: "globe \<Rightarrow> vec3 \<Rightarrow> vec3" where
  "transformPoint s originalPoint =
     (let rotationRadians = (polygonRotation s * pi) / 180;
          point = applyMatrix4 originalPoint (rotationMatrix (polygonRotationAxis s) rotationRadians)
      in if polygonPosition s \<noteq> 0 then moveAlong (polygonAxis s) (polygonPosition s) point
         else point)"

text \<open>
  Both functions walk the working points with their index and read the original point
  at the same index; \<open>point.copy(undefined)\<close> throws a TypeError when the original array
  is shorter.
\<close>

datatype error = TypeError

fun forEachPoint :: "(vec3 \<Rightarrow> vec3) \<Rightarrow> vec3 list \<Rightarrow> vec3 list \<Rightarrow> error + vec3 list" where
  "forEachPoint f [] originals = Inr []"
| "forEachPoint f (point # working) [] = Inl TypeError"
| "forEachPoint f (point # working) (originalPoint # originals) =
     (case forEachPoint f working originals of
        Inl e \<Rightarrow> Inl e
      | Inr rest \<Rightarrow> Inr (f originalPoint # rest))"

text \<open>
  After the points are rewritten the visuals are refreshed (they are not part of the
  state) and clipping is re-run.
\<close>

definition afterPolygonMove :: "globe \<Rightarrow> globe" where
  "afterPolygonMove s =
     (if realtimeClipping s then applyRealtimeClipping s else updateClippingOnPolygonMove s)"

definition updatePolygonPosition :: "globe \<Rightarrow> error + globe" where
  "updatePolygonPosition s =
     (case (originalPolygonPoints s, clippingPolygon s) of
        (Some originals, Some working) \<Rightarrow>
          (case forEachPoint (positionPoint s) working originals of
             Inl e \<Rightarrow> Inl e
           | Inr working' \<Rightarrow> Inr (afterPolygonMove (s\<lparr>clippingPolygon := Some working'\<rparr>)))
      | _ \<Rightarrow> Inr s)"

definition updatePolygonTransform :: "globe \<Rightarrow> error + globe" where
  "updatePolygonTransform s =
     (case (originalPolygonPoints s, clippingPolygon s) of
        (Some originals, Some working) \<Rightarrow>
          (case forEachPoint (transformPoint s) working originals of
             Inl e \<Rightarrow> Inl e
           | Inr working' \<Rightarrow> Inr (afterPolygonMove (s\<lparr>clippingPolygon := Some working'\<rparr>)))
      | _ \<Rightarrow> Inr s)"

text \<open>
  The rectangle that \<open>createSpherePolygon\<close> and \<open>recreatePolygon\<close> both build: four
  corners at \<open>z = 4\<close>, sized from \<open>polygonWidth\<close> and \<open>polygonHeight\<close>, each
  normalised and scaled onto the sphere of radius 80. These two functions are the only
  places that assign \<open>this.clippingPolygon\<close>; their markers and fill mesh are visuals.
\<close>

definition sizedRectangle :: "globe \<Rightarrow> vec3 list" where
  "sizedRectangle s =
     (let sphereRadius = 80;
          widthRatio = polygonWidth s / 50;
          heightRatio = polygonHeight s / 50;
          halfWidth = (sphereRadius * widthRatio) / 2;
          halfHeight = (sphereRadius * heightRatio) / 2;
          points = [Vector3 halfWidth halfHeight 4,
                    Vector3 (- halfWidth) halfHeight 4,
                    Vector3 (- halfWidth) (- halfHeight) 4,
                    Vector3 halfWidth (- halfHeight) 4]
      in map (\<lambda>point. multiplyScalar (normalize point) sphereRadius) points)"

definition createSpherePolygon :: "globe \<Rightarrow> globe" where
  "createSpherePolygon s =
     s\<lparr>clippingPolygon := Some (sizedRectangle s),
       originalPolygonPoints := Some (sizedRectangle s)\<rparr>"

definition recreatePolygon :: "globe \<Rightarrow> globe" where
  "recreatePolygon s =
     (case originalPolygonPoints s of
        None \<Rightarrow> s
      | Some _ \<Rightarrow>
          s\<lparr>clippingPolygon := Some (sizedRectangle s),
            originalPolygonPoints := Some (sizedRectangle s)\<rparr>)"

section \<open>The brush sculptor\<close>

text \<open>
  The loop body of \<open>editTerrain\<close> for one vertex: the new position of the vertex, which
  is the old one when the vertex is out of range or moves by at most 0.001 on every axis.
\<close>

definition sculptVertex :: "globe \<Rightarrow> vec3 \<Rightarrow> vec3 \<Rightarrow> vec3" where
  "sculptVertex s localPoint old =
     (let distance = distanceTo old localPoint
      in if distance < brushSize s then
           (let normalizedDistance = distance / brushSize s;
                influence = 1 - (3 * normalizedDistance * normalizedDistance
                                 - 2 * normalizedDistance * normalizedDistance * normalizedDistance);
                normal = normalize old;
                change = intensity s * influence;
                vertex = (if mode s = ''extrude'' then add old (multiplyScalar normal change)
                          else if mode s = ''compress''
                               then add old (multiplyScalar normal (- change))
                          else old)
            in if \<bar>vx vertex - vx old\<bar> > 1 / 1000 \<or> \<bar>vy vertex - vy old\<bar> > 1 / 1000
                  \<or> \<bar>vz vertex - vz old\<bar> > 1 / 1000
               then vertex else old)
         else old)"

text \<open>
  \<open>editTerrain()\<close>: the ray intersection is the rendering collaborator's; its result
  comes in as \<open>hit\<close>, the nearest hit point in the terrain's local frame, if any.
\<close>

definition editTerrain :: "globe \<Rightarrow> vec3 option \<Rightarrow> globe" where
  "editTerrain s hit =
     (case crust s of
        None \<Rightarrow> s
      | Some terrain \<Rightarrow>
          (case hit of
             None \<Rightarrow> s
           | Some localPoint \<Rightarrow>
               s\<lparr>crust := Some (terrain\<lparr>geometry :=
                    (geometry terrain)\<lparr>positions :=
                       map (sculptVertex s localPoint) (positions (geometry terrain))\<rparr>\<rparr>)\<rparr>))"

section \<open>The resolution controls\<close>

text \<open>
  The value of a number input after \<open>parseInt\<close>: \<open>None\<close> stands for \<open>NaN\<close>.
  \<open>parseInt(v) || dflt\<close> takes the default for \<open>NaN\<close> and for 0.
\<close>

definition orDefault :: "int option \<Rightarrow> int \<Rightarrow> int" where
  "orDefault parsed dflt = (case parsed of None \<Rightarrow> dflt | Some n \<Rightarrow> if n = 0 then dflt else n)"

text \<open>\<open>inputs\<close> is \<open>None\<close> when one of the two input elements is missing from the page.\<close>

definition readInitialSegments :: "globe \<Rightarrow> (int option \<times> int option) option \<Rightarrow> globe" where
  "readInitialSegments s inputs =
     (case inputs of
        None \<Rightarrow> s
      | Some (widthValue, heightValue) \<Rightarrow>
          (let w = orDefault widthValue 256;
               h = orDefault heightValue 128
           in s\<lparr>currentSegments := \<lparr> width = max 8 (min 1024 w), height = max 8 (min 1024 h) \<rparr>\<rparr>))"

definition truthy :: "int option \<Rightarrow> bool" where
  "truthy parsed = (case parsed of None \<Rightarrow> False | Some n \<Rightarrow> n \<noteq> 0)"

text \<open>
  \<open>updateSegmentsIfValid()\<close>: \<open>createTerrain\<close> and \<open>updateConsoleDisplay\<close> only refresh the
  console read-outs, so the segment record is the whole effect.
\<close>

definition updateSegmentsIfValid :: "globe \<Rightarrow> int option \<Rightarrow> int option \<Rightarrow> globe" where
  "updateSegmentsIfValid s customWidth customHeight =
     (case (customWidth, customHeight) of
        (Some w, Some h) \<Rightarrow>
          if truthy customWidth \<and> truthy customHeight \<and> w \<ge> 8 \<and> w \<le> 1024 \<and> h \<ge> 8 \<and> h \<le> 1024
          then (if w \<noteq> width (currentSegments s) \<or> h \<noteq> height (currentSegments s)
                then s\<lparr>currentSegments := \<lparr> width = w, height = h \<rparr>\<rparr>
                else s)
          else s
      | _ \<Rightarrow> s)"

section \<open>Notions used to state the properties\<close>

text \<open>
  The geometry that clipping and restoring a mesh work from: the stored original when
  there is one, otherwise the mesh's current geometry (which the clipping then stores).
\<close>

definition pristineGeometry :: "globe \<Rightarrow> mesh \<Rightarrow> geometry" where
  "pristineGeometry s m =
     (case originalGeometries s (uuid m) of Some g \<Rightarrow> g | None \<Rightarrow> geometry m)"

text \<open>
  The old-index to new-index map, said directly: a visible vertex moves to the position
  given by the number of visible vertices before it. A triangle is kept when its three
  indices are in range and visible, and is rewritten through that map.
\<close>

definition newIndexOf :: "(vec3 \<Rightarrow> bool) \<Rightarrow> vec3 list \<Rightarrow> nat \<Rightarrow> nat" where
  "newIndexOf f ps j = length (filter f (take j ps))"

definition allVisible :: "(vec3 \<Rightarrow> bool) \<Rightarrow> vec3 list \<Rightarrow> nat \<times> nat \<times> nat \<Rightarrow> bool" where
  "allVisible f ps t =
     (case t of (a, b, c) \<Rightarrow>
        a < length ps \<and> f (ps ! a) \<and> b < length ps \<and> f (ps ! b) \<and> c < length ps \<and> f (ps ! c))"

definition remapTriangle ::
  "(vec3 \<Rightarrow> bool) \<Rightarrow> vec3 list \<Rightarrow> nat \<times> nat \<times> nat \<Rightarrow> nat \<times> nat \<times> nat" where
  "remapTriangle f ps t =
     (case t of (a, b, c) \<Rightarrow> (newIndexOf f ps a, newIndexOf f ps b, newIndexOf f ps c))"

definition keptTriangles :: "(vec3 \<Rightarrow> bool) \<Rightarrow> geometry \<Rightarrow> (nat \<times> nat \<times> nat) list" where
  "keptTriangles f g =
     (case index g of
        None \<Rightarrow> []
      | Some tris \<Rightarrow> map (remapTriangle f (positions g)) (filter (allVisible f (positions g)) tris))"

text \<open>
  Vertex and triangle counts of a geometry; without an index buffer, three.js draws one
  triangle per three consecutive vertices.
\<close>

definition vertexCount :: "geometry \<Rightarrow> nat" where
  "vertexCount g = length (positions g)"

definition triangleCount :: "geometry \<Rightarrow> nat" where
  "triangleCount g = (case index g of Some tris \<Rightarrow> length tris | None \<Rightarrow> length (positions g) div 3)"

text \<open>
  The brush as the specification words it, written without the vector helpers of the
  code: the Euclidean distance of two points; the distance of a vertex from the sphere
  centre (the origin of the mesh's frame); the smoothstep falloff \<open>1 - (3t\<^sup>2 - 2t\<^sup>3)\<close> at
  the normalised distance \<open>t\<close> of the vertex from the hit point; the displacement, falloff
  times strength along the vertex's own unit radial direction; and the vertex displaced
  by it. The code moves a vertex when it is within the radius and the displacement
  exceeds 0.001 on some axis.
\<close>

definition euclidean :: "vec3 \<Rightarrow> vec3 \<Rightarrow> real" where
  "euclidean a b = sqrt ((vx a - vx b)\<^sup>2 + (vy a - vy b)\<^sup>2 + (vz a - vz b)\<^sup>2)"

definition radialDistance :: "vec3 \<Rightarrow> real" where
  "radialDistance v = sqrt ((vx v)\<^sup>2 + (vy v)\<^sup>2 + (vz v)\<^sup>2)"

definition falloff :: "globe \<Rightarrow> vec3 \<Rightarrow> vec3 \<Rightarrow> real" where
  "falloff s localPoint v =
     (let t = euclidean v localPoint / brushSize s in 1 - (3 * t\<^sup>2 - 2 * t ^ 3))"

definition displacement :: "globe \<Rightarrow> vec3 \<Rightarrow> vec3 \<Rightarrow> vec3" where
  "displacement s localPoint v =
     (let amount = falloff s localPoint v * intensity s
      in Vector3 (vx v / radialDistance v * amount)
                 (vy v / radialDistance v * amount)
                 (vz v / radialDistance v * amount))"

definition displaced :: "globe \<Rightarrow> vec3 \<Rightarrow> vec3 \<Rightarrow> vec3" where
  "displaced s localPoint v =
     Vector3 (vx v + vx (displacement s localPoint v))
             (vy v + vy (displacement s localPoint v))
             (vz v + vz (displacement s localPoint v))"

definition brushMoves :: "globe \<Rightarrow> vec3 \<Rightarrow> vec3 \<Rightarrow> bool" where
  "brushMoves s localPoint v =
     (euclidean v localPoint < brushSize s
      \<and> (\<bar>vx (displacement s localPoint v)\<bar> > 1 / 1000
         \<or> \<bar>vy (displacement s localPoint v)\<bar> > 1 / 1000
         \<or> \<bar>vz (displacement s localPoint v)\<bar> > 1 / 1000))"

text \<open>
  Three points are collinear when the cross product of the two edge vectors from the
  first point is the zero vector, written out on the coordinates.
\<close>

definition collinear3 :: "vec3 \<Rightarrow> vec3 \<Rightarrow> vec3 \<Rightarrow> bool" where
  "collinear3 a b c =
     ((vy b - vy a) * (vz c - vz a) - (vz b - vz a) * (vy c - vy a) = 0
      \<and> (vz b - vz a) * (vx c - vx a) - (vx b - vx a) * (vz c - vz a) = 0
      \<and> (vx b - vx a) * (vy c - vy a) - (vy b - vy a) * (vx c - vx a) = 0)"

text \<open>One corner of the sized rectangle, from its coordinates before normalisation.\<close>

definition corner :: "real \<Rightarrow> real \<Rightarrow> vec3" where
  "corner a b = multiplyScalar (normalize (Vector3 a b 4)) 80"

text \<open>The clamp of the resolution bounds, as the specification words it.\<close>

definition clampSegment :: "int \<Rightarrow> int" where
  "clampSegment n = (if n < 8 then 8 else if n > 1024 then 1024 else n)"

definition segmentsInBounds :: "globe \<Rightarrow> bool" where
  "segmentsInBounds s =
     (8 \<le> width (currentSegments s) \<and> width (currentSegments s) \<le> 1024
      \<and> 8 \<le> height (currentSegments s) \<and> height (currentSegments s) \<le> 1024)"

text \<open>
  Sequences of editor operations on the layers: the clipping and restoring entry points,
  a brush stroke, and a replacement of the working polygon (as the polygon transformer
  and the resize do).
\<close>

datatype action =
    ClipLayer string
  | RestoreLayer string
  | RestoreAll
  | ChangeDirection string
  | ApplySelected
  | RealtimeClip
  | Sculpt "vec3 option"
  | SetPolygon "vec3 list option"

fun perform :: "action \<Rightarrow> globe \<Rightarrow> globe" where
  "perform (ClipLayer l) s = clipSphereWithPolygon s l"
| "perform (RestoreLayer l) s = restoreOriginalGeometry s l"
| "perform RestoreAll s = restoreAllLayers s"
| "perform (ChangeDirection v) s = onClippingDirectionChange s v"
| "perform ApplySelected s = applyClippingToSelectedLayers s"
| "perform RealtimeClip s = applyRealtimeClipping s"
| "perform (Sculpt hit) s = editTerrain s hit"
| "perform (SetPolygon polygon) s = s\<lparr>clippingPolygon := polygon\<rparr>"

fun run :: "action list \<Rightarrow> globe \<Rightarrow> globe" where
  "run [] s = s"
| "run (a # as) s = run as (perform a s)"

subsection \<open>A small scene\<close>

definition tetra :: geometry where
  "tetra = \<lparr> positions = [Vector3 0 0 (- 1), Vector3 0 0 1, Vector3 1 0 1, Vector3 0 1 1],
             index = Some [(1, 2, 3), (0, 1, 2)] \<rparr>"

definition tetraTop :: geometry where
  "tetraTop = \<lparr> positions = [Vector3 0 0 1, Vector3 1 0 1, Vector3 0 1 1],
                index = Some [(0, 1, 2)] \<rparr>"

definition plainMaterial :: material where
  "plainMaterial = \<lparr> material_clippingPlanes = None, clipIntersection = False \<rparr>"

definition crustMesh :: mesh where
  "crustMesh = \<lparr> uuid = ''c'', geometry = tetra, material = plainMaterial, visible = True \<rparr>"

definition mantleMesh :: mesh where
  "mantleMesh = \<lparr> uuid = ''m'', geometry = tetra, material = plainMaterial, visible = True \<rparr>"

definition coreMesh :: mesh where
  "coreMesh = \<lparr> uuid = ''k'', geometry = tetra, material = plainMaterial, visible = False \<rparr>"

definition flatPolygon :: "vec3 list" where
  "flatPolygon = [Vector3 0 0 0, Vector3 1 0 0, Vector3 0 1 0, Vector3 1 1 0]"

definition flatPlane :: plane where
  "flatPlane = \<lparr> plane_normal = Vector3 0 0 1, plane_d = 0 \<rparr>"

definition collinearPolygon :: "vec3 list" where
  "collinearPolygon = [Vector3 0 0 0, Vector3 1 0 0, Vector3 2 0 0]"

definition demo :: globe where
  "demo = \<lparr> isWebGPURenderer = True,
             crust = Some crustMesh, mantle = Some mantleMesh, core = Some coreMesh,
             clippingPolygon = Some flatPolygon, originalPolygonPoints = Some flatPolygon,
             originalGeometries = Map.empty, clippingDirection = ''outside'',
             realtimeClipping = False, clippingPlanes = Map.empty,
             polygonAxis = ''z'', polygonPosition = 0,
             polygonRotationAxis = ''x'', polygonRotation = 0,
             polygonWidth = 50, polygonHeight = 50,
             clipCrust = False, clipMantle = False, clipCore = False,
             brushSize = 20, mode = ''extrude'', intensity = 2,
             currentSegments = \<lparr> width = 256, height = 128 \<rparr> \<rparr>"

text \<open>The plane records stored for a mesh in \<open>this.clippingPlanes\<close>, if any.\<close>

definition storedPlanes :: "globe \<Rightarrow> string \<Rightarrow> planeData list" where
  "storedPlanes s u = (case clippingPlanes s u of None \<Rightarrow> [] | Some l \<Rightarrow> l)"

text \<open>The fields that the polygon transformer reads, and the two switches of its clipping pass.\<close>

definition polygonSettings ::
  "globe \<Rightarrow> vec3 list option \<times> vec3 list option \<times> string \<times> real \<times> string \<times> real \<times> bool \<times> bool" where
  "polygonSettings s =
     (originalPolygonPoints s, clippingPolygon s, polygonAxis s, polygonPosition s,
      polygonRotationAxis s, polygonRotation s, realtimeClipping s, isWebGPURenderer s)"

text \<open>The small scene with a working polygon of two points only.\<close>

definition twoPointScene :: globe where
  "twoPointScene = demo\<lparr>clippingPolygon := Some [Vector3 0 0 0, Vector3 1 0 0]\<rparr>"

text \<open>A crust of one vertex on the sphere of radius 50, for a hit 19.8 away from it.\<close>

definition rimScene :: globe where
  "rimScene = demo\<lparr>crust := Some (crustMesh\<lparr>geometry := \<lparr> positions = [Vector3 0 0 50], index = None \<rparr>\<rparr>)\<rparr>"

text \<open>The small scene with a crust of a single vertex, at the pole.\<close>

definition poleScene :: globe where
  "poleScene = demo\<lparr>crust := Some (crustMesh\<lparr>geometry := \<lparr> positions = [Vector3 0 0 1], index = None \<rparr>\<rparr>)\<rparr>"

text \<open>
  The meshes of the layers are distinct objects with distinct uuids (three.js draws a
  fresh uuid for every object).
\<close>

definition distinctUuids :: "globe \<Rightarrow> bool" where
  "distinctUuids s =
     (\<forall>l1 l2 m1 m2. layerMesh s l1 = Some m1 \<and> layerMesh s l2 = Some m2 \<and> l1 \<noteq> l2
        \<longrightarrow> uuid m1 \<noteq> uuid m2)"

text \<open>One step of the re-application in \<open>reapplyClippingToAllLayers\<close>.\<close>

definition clipIfVisible :: "globe \<Rightarrow> string \<Rightarrow> globe" where
  "clipIfVisible s l = (if presentVisible (layerMesh s l) then clipSphereWithPolygon s l else s)"

text \<open>
  What is followed through a clipping pass under the WebGPU renderer: the polygon and
  direction in force, and for one layer its mesh, the original stored for it and the
  plane records stored for it.
\<close>

definition gpuContext :: "vec3 list \<Rightarrow> string \<Rightarrow> globe \<Rightarrow> bool" where
  "gpuContext poly dir s =
     (isWebGPURenderer s \<and> clippingPolygon s = Some poly \<and> clippingDirection s = dir
      \<and> distinctUuids s)"

definition layerHolds ::
  "globe \<Rightarrow> string \<Rightarrow> mesh \<Rightarrow> geometry option \<Rightarrow> planeData list option \<Rightarrow> bool" where
  "layerHolds s l m og cp =
     (layerMesh s l = Some m \<and> originalGeometries s (uuid m) = og \<and> clippingPlanes s (uuid m) = cp)"

definition tracked ::
  "vec3 list \<Rightarrow> string \<Rightarrow> globe \<Rightarrow> string \<Rightarrow> mesh \<Rightarrow> geometry option \<Rightarrow> planeData list option
     \<Rightarrow> bool" where
  "tracked poly dir s l m og cp = (gpuContext poly dir s \<and> layerHolds s l m og cp)"

text \<open>
  What every operation keeps from one state to a later one: the renderer kind, the uuid
  of each layer's mesh, and every original geometry already stored.
\<close>

definition stable :: "globe \<Rightarrow> globe \<Rightarrow> bool" where
  "stable s s' =
     (isWebGPURenderer s' = isWebGPURenderer s
      \<and> (\<forall>l. map_option uuid (layerMesh s' l) = map_option uuid (layerMesh s l))
      \<and> (\<forall>u g. originalGeometries s u = Some g \<longrightarrow> originalGeometries s' u = Some g))"

text \<open>The small scene with a brush of radius 1/2, after a first clipping of the crust.\<close>

definition clippedScene :: globe where
  "clippedScene = clipSphereWithPolygon (demo\<lparr>brushSize := 1 / 2\<rparr>) ''crust''"

section \<open>Properties of the geometry-partition clipping\<close>

lemma compactLoop_positions:
  "fst (compactLoop i (map f ps) ps np vm k) = np @ filter f ps"
  by (induction ps arbitrary: i np vm k) simp_all

lemma compactLoop_vertexMap:
  "snd (compactLoop i (map f ps) ps np vm k) j =
     (if i \<le> j \<and> j < i + length ps \<and> f (ps ! (j - i))
      then Some (k + length (filter f (take (j - i) ps)))
      else vm j)"
proof (induction ps arbitrary: i np vm k)
  case Nil
  then show ?case by auto
next
  case (Cons p ps)
  show ?case
  proof (cases "j = i")
    case True
    then show ?thesis using Cons.IH by simp
  next
    case False
    then show ?thesis using Cons.IH
      by (auto simp: Suc_diff_le nth_Cons' take_Cons')
  qed
qed

lemma indexLoop_eq:
  "indexLoop vis vm tris acc =
     acc @ map (\<lambda>(a, b, c). (mapGet vm a, mapGet vm b, mapGet vm c))
             (filter (\<lambda>(a, b, c). isVisible vis a \<and> isVisible vis b \<and> isVisible vis c) tris)"
  by (induction vis vm tris acc rule: indexLoop.induct) simp_all

lemma compactLoop_start:
  "compactLoop 0 (map f ps) ps [] Map.empty 0 =
     (filter f ps, \<lambda>j. if j < length ps \<and> f (ps ! j) then Some (newIndexOf f ps j) else None)"
proof -
  have "fst (compactLoop 0 (map f ps) ps [] Map.empty 0) = filter f ps"
    by (simp add: compactLoop_positions)
  moreover have "snd (compactLoop 0 (map f ps) ps [] Map.empty 0) =
      (\<lambda>j. if j < length ps \<and> f (ps ! j) then Some (newIndexOf f ps j) else None)"
    by (rule ext) (simp add: compactLoop_vertexMap newIndexOf_def)
  ultimately show ?thesis by (simp add: prod_eq_iff)
qed

lemma indexLoop_kept:
  "indexLoop (map f ps)
       (\<lambda>j. if j < length ps \<and> f (ps ! j) then Some (newIndexOf f ps j) else None) tris [] =
     map (remapTriangle f ps) (filter (allVisible f ps) tris)"
proof -
  have "filter (\<lambda>(a, b, c). isVisible (map f ps) a \<and> isVisible (map f ps) b \<and> isVisible (map f ps) c) tris
          = filter (allVisible f ps) tris"
    by (rule filter_cong) (auto simp: isVisible_def allVisible_def)
  moreover have "map (\<lambda>(a, b, c).
            (mapGet (\<lambda>j. if j < length ps \<and> f (ps ! j) then Some (newIndexOf f ps j) else None) a,
             mapGet (\<lambda>j. if j < length ps \<and> f (ps ! j) then Some (newIndexOf f ps j) else None) b,
             mapGet (\<lambda>j. if j < length ps \<and> f (ps ! j) then Some (newIndexOf f ps j) else None) c))
          (filter (allVisible f ps) tris)
        = map (remapTriangle f ps) (filter (allVisible f ps) tris)"
    by (rule map_cong) (auto simp: allVisible_def remapTriangle_def mapGet_def)
  ultimately show ?thesis by (simp add: indexLoop_eq)
qed

lemma clipGeometry_eq:
  "clipGeometry dir pl g =
     \<lparr> positions = filter (shouldShow dir pl) (positions g),
       index = (if keptTriangles (shouldShow dir pl) g \<noteq> []
                then Some (keptTriangles (shouldShow dir pl) g) else None) \<rparr>"
  by (cases "index g")
     (simp_all add: clipGeometry_def vertexVisibility_def compactLoop_start indexLoop_kept
        keptTriangles_def Let_def)

lemma applyGeometryClipping_eq:
  "applyGeometryClipping s m pl =
     (s\<lparr>originalGeometries := (originalGeometries s)(uuid m \<mapsto> pristineGeometry s m)\<rparr>,
      m\<lparr>geometry := clipGeometry (clippingDirection s) pl (pristineGeometry s m)\<rparr>)"
proof (cases "originalGeometries s (uuid m)")
  case None
  then show ?thesis by (simp add: applyGeometryClipping_def pristineGeometry_def Let_def)
next
  case (Some g)
  then have "(originalGeometries s)(uuid m \<mapsto> g) = originalGeometries s"
    by (simp add: map_upd_triv)
  with Some show ?thesis by (simp add: applyGeometryClipping_def pristineGeometry_def Let_def)
qed

text \<open>
  Claim C1. A geometry-partition clipping application works from the pristine snapshot
  (the stored original, or the mesh's geometry when nothing is stored yet, which is then
  stored): a vertex of the pristine mesh is visible iff \<open>normal \<cdot> v + offset > 0\<close> in outside
  mode and iff \<open>normal \<cdot> v + offset < 0\<close> in inside mode; the new vertex buffer holds exactly
  the visible vertices in their original order, a visible vertex \<open>j\<close> being found at its new
  index; the new index buffer holds exactly the pristine triangles whose three vertices
  are visible, rewritten through the index map (and is absent when no triangle is kept).
\<close>

theorem applyGeometryClipping_partitions_pristine:
  assumes run: "applyGeometryClipping s m pl = (s', m')"
    and pristine: "pristine = pristineGeometry s m"
    and vis: "vis = shouldShow (clippingDirection s) pl"
  shows "originalGeometries s' (uuid m) = Some pristine
       \<and> (clippingDirection s = ''outside'' \<longrightarrow>
            (\<forall>v. vis v \<longleftrightarrow> dot (plane_normal pl) v + plane_d pl > 0))
       \<and> (clippingDirection s = ''inside'' \<longrightarrow>
            (\<forall>v. vis v \<longleftrightarrow> dot (plane_normal pl) v + plane_d pl < 0))
       \<and> positions (geometry m') = filter vis (positions pristine)
       \<and> (\<forall>j < length (positions pristine). vis (positions pristine ! j) \<longrightarrow>
              newIndexOf vis (positions pristine) j < length (positions (geometry m'))
            \<and> positions (geometry m') ! newIndexOf vis (positions pristine) j = positions pristine ! j)
       \<and> index (geometry m') =
            (if keptTriangles vis pristine \<noteq> [] then Some (keptTriangles vis pristine) else None)
       \<and> keptTriangles vis pristine =
            (case index pristine of
               None \<Rightarrow> []
             | Some tris \<Rightarrow>
                 map (remapTriangle vis (positions pristine))
                   (filter (allVisible vis (positions pristine)) tris))"
proof -
  have s': "s' = s\<lparr>originalGeometries := (originalGeometries s)(uuid m \<mapsto> pristine)\<rparr>"
    and m': "m' = m\<lparr>geometry := clipGeometry (clippingDirection s) pl pristine\<rparr>"
    using run pristine by (simp_all add: applyGeometryClipping_eq)
  have pos: "positions (geometry m') = filter vis (positions pristine)"
    by (simp add: m' clipGeometry_eq vis)
  have idx: "\<And>j. j < length (positions pristine) \<Longrightarrow> vis (positions pristine ! j) \<Longrightarrow>
          newIndexOf vis (positions pristine) j < length (filter vis (positions pristine))
        \<and> filter vis (positions pristine) ! newIndexOf vis (positions pristine) j = positions pristine ! j"
  proof -
    fix j assume j: "j < length (positions pristine)" "vis (positions pristine ! j)"
    let ?ps = "positions pristine"
    have split: "?ps = take j ?ps @ ?ps ! j # drop (Suc j) ?ps"
      using j(1) by (simp add: id_take_nth_drop)
    have "filter vis ?ps = filter vis (take j ?ps) @ ?ps ! j # filter vis (drop (Suc j) ?ps)"
      using j(2) by (metis split filter.simps(2) filter_append)
    then show "newIndexOf vis ?ps j < length (filter vis ?ps)
        \<and> filter vis ?ps ! newIndexOf vis ?ps j = ?ps ! j"
      by (simp add: newIndexOf_def nth_append)
  qed
  have snap: "originalGeometries s' (uuid m) = Some pristine" by (simp add: s')
  have out: "clippingDirection s = ''outside'' \<longrightarrow>
      (\<forall>v. vis v \<longleftrightarrow> dot (plane_normal pl) v + plane_d pl > 0)"
    by (simp add: vis shouldShow_def)
  have ins: "clippingDirection s = ''inside'' \<longrightarrow>
      (\<forall>v. vis v \<longleftrightarrow> dot (plane_normal pl) v + plane_d pl < 0)"
    by (simp add: vis shouldShow_def)
  have ix: "index (geometry m') =
      (if keptTriangles vis pristine \<noteq> [] then Some (keptTriangles vis pristine) else None)"
    by (simp add: m' clipGeometry_eq vis)
  have kept: "keptTriangles vis pristine =
      (case index pristine of
         None \<Rightarrow> []
       | Some tris \<Rightarrow>
           map (remapTriangle vis (positions pristine))
             (filter (allVisible vis (positions pristine)) tris))"
    by (simp add: keptTriangles_def)
  from snap out ins pos idx ix kept show ?thesis
    by (simp only: pos) blast
qed

theorem applyGeometryClipping_partitions_pristine_witness:
  "pristineGeometry demo crustMesh = tetra
   \<and> originalGeometries (fst (applyGeometryClipping demo crustMesh flatPlane)) (uuid crustMesh)
       = Some tetra
   \<and> positions (geometry (snd (applyGeometryClipping demo crustMesh flatPlane)))
       = [Vector3 0 0 1, Vector3 1 0 1, Vector3 0 1 1]
   \<and> index (geometry (snd (applyGeometryClipping demo crustMesh flatPlane))) = Some [(0, 1, 2)]"
proof -
  have run: "applyGeometryClipping demo crustMesh flatPlane
      = (fst (applyGeometryClipping demo crustMesh flatPlane),
         snd (applyGeometryClipping demo crustMesh flatPlane))" by simp
  have pr: "tetra = pristineGeometry demo crustMesh"
    by (simp add: pristineGeometry_def demo_def crustMesh_def)
  have dir: "clippingDirection demo = ''outside''" by (simp add: demo_def)
  have kept: "keptTriangles (shouldShow ''outside'' flatPlane) tetra = [(0, 1, 2)]"
    by (simp add: keptTriangles_def allVisible_def remapTriangle_def newIndexOf_def
          shouldShow_def flatPlane_def tetra_def dot_def)
  have pos: "filter (shouldShow ''outside'' flatPlane) (positions tetra)
      = [Vector3 0 0 1, Vector3 1 0 1, Vector3 0 1 1]"
    by (simp add: shouldShow_def flatPlane_def tetra_def dot_def)
  from applyGeometryClipping_partitions_pristine [OF run pr refl]
  show ?thesis by (simp add: dir kept pos pr [symmetric])
qed

section \<open>Clipping and restoring a layer\<close>

lemma calculateClippingPlane_None_iff:
  "calculateClippingPlane poly = None \<longleftrightarrow> length poly < 3"
  by (auto simp: calculateClippingPlane_def Let_def split: list.splits)

lemma layerMesh_putLayer:
  "layerMesh s l \<noteq> None \<Longrightarrow>
   layerMesh (putLayer s l m) l' = (if l' = l then Some m else layerMesh s l')"
  by (auto simp: layerMesh_def putLayer_def split: if_splits)

lemma putLayer_fields [simp]:
  "isWebGPURenderer (putLayer s l m) = isWebGPURenderer s"
  "clippingPolygon (putLayer s l m) = clippingPolygon s"
  "originalPolygonPoints (putLayer s l m) = originalPolygonPoints s"
  "originalGeometries (putLayer s l m) = originalGeometries s"
  "clippingDirection (putLayer s l m) = clippingDirection s"
  "realtimeClipping (putLayer s l m) = realtimeClipping s"
  "clippingPlanes (putLayer s l m) = clippingPlanes s"
  "polygonAxis (putLayer s l m) = polygonAxis s"
  "polygonPosition (putLayer s l m) = polygonPosition s"
  "polygonRotationAxis (putLayer s l m) = polygonRotationAxis s"
  "polygonRotation (putLayer s l m) = polygonRotation s"
  "clipCrust (putLayer s l m) = clipCrust s"
  "clipMantle (putLayer s l m) = clipMantle s"
  "clipCore (putLayer s l m) = clipCore s"
  "brushSize (putLayer s l m) = brushSize s"
  "mode (putLayer s l m) = mode s"
  "intensity (putLayer s l m) = intensity s"
  "currentSegments (putLayer s l m) = currentSegments s"
  by (simp_all add: putLayer_def)

lemma restore_webgpu:
  "isWebGPURenderer s \<Longrightarrow> layerMesh s l = Some m \<Longrightarrow>
   restoreOriginalGeometry s l =
     (putLayer s l (m\<lparr>geometry := pristineGeometry s m\<rparr>))
       \<lparr>clippingPlanes := (clippingPlanes s)(uuid m := None)\<rparr>"
  by (cases "originalGeometries s (uuid m)")
     (simp_all add: restoreOriginalGeometry_def pristineGeometry_def Let_def)

lemma material_update_same:
  "material_clippingPlanes mat = v \<Longrightarrow> mat\<lparr>material_clippingPlanes := v\<rparr> = mat"
  by (cases mat) simp

lemma mesh_material_same: "m\<lparr>material := material m\<rparr> = m"
  by (cases m) simp

lemma restore_webgl:
  "\<not> isWebGPURenderer s \<Longrightarrow> layerMesh s l = Some m \<Longrightarrow>
   restoreOriginalGeometry s l =
     (putLayer s l (m\<lparr>material := (material m)\<lparr>material_clippingPlanes :=
          map_option (\<lambda>_. []) (material_clippingPlanes (material m))\<rparr>\<rparr>))
       \<lparr>clippingPlanes := (clippingPlanes s)(uuid m := None)\<rparr>"
  by (cases "material_clippingPlanes (material m)")
     (simp_all add: restoreOriginalGeometry_def Let_def material_update_same mesh_material_same)

lemma restore_absent:
  "layerMesh s l = None \<Longrightarrow> restoreOriginalGeometry s l = s"
  by (simp add: restoreOriginalGeometry_def)

lemma clip_absent:
  "layerMesh s l = None \<Longrightarrow> clipSphereWithPolygon s l = s"
  by (simp add: clipSphereWithPolygon_def split: option.splits)


lemma clip_webgpu:
  "isWebGPURenderer s \<Longrightarrow> clippingPolygon s = Some poly \<Longrightarrow>
   calculateClippingPlane poly = Some pl \<Longrightarrow> layerMesh s l = Some m \<Longrightarrow>
   clipSphereWithPolygon s l =
     putLayer
       (s\<lparr>clippingPlanes := (clippingPlanes s)(uuid m \<mapsto>
              storedPlanes s (uuid m) @
                [\<lparr> plane_normal = plane_normal pl, plane_d = plane_d pl,
                   direction = clippingDirection s \<rparr>]),
          originalGeometries := (originalGeometries s)(uuid m \<mapsto> pristineGeometry s m)\<rparr>)
       l (m\<lparr>geometry := clipGeometry (clippingDirection s) pl (pristineGeometry s m)\<rparr>)"
proof -
  assume a: "isWebGPURenderer s" "clippingPolygon s = Some poly"
    "calculateClippingPlane poly = Some pl" "layerMesh s l = Some m"
  have len: "\<not> length poly < 3" using a(3) calculateClippingPlane_None_iff [of poly] by simp
  have "applyMaterialClipping s m pl =
      (s\<lparr>clippingPlanes := (clippingPlanes s)(uuid m \<mapsto>
              storedPlanes s (uuid m) @
                [\<lparr> plane_normal = plane_normal pl, plane_d = plane_d pl,
                   direction = clippingDirection s \<rparr>]),
          originalGeometries := (originalGeometries s)(uuid m \<mapsto> pristineGeometry s m)\<rparr>,
       m\<lparr>geometry := clipGeometry (clippingDirection s) pl (pristineGeometry s m)\<rparr>)"
    using a(1)
    by (cases "clippingPlanes s (uuid m)")
       (simp_all add: applyMaterialClipping_def applyWebGPUClipping_def ensureClippingPlanes_def
          applyGeometryClipping_eq storedPlanes_def pristineGeometry_def Let_def)
  then show ?thesis using a len by (simp add: clipSphereWithPolygon_def)
qed

lemma clip_webgl:
  "\<not> isWebGPURenderer s \<Longrightarrow> clippingPolygon s = Some poly \<Longrightarrow>
   calculateClippingPlane poly = Some pl \<Longrightarrow> layerMesh s l = Some m \<Longrightarrow>
   clipSphereWithPolygon s l =
     putLayer (ensureClippingPlanes s (uuid m)) l
       (m\<lparr>material := (material m)\<lparr>
            material_clippingPlanes :=
              Some ((case material_clippingPlanes (material m) of Some e \<Rightarrow> e | None \<Rightarrow> [])
                    @ [\<lparr> plane_normal = plane_normal pl, plane_d = plane_d pl \<rparr>]),
            clipIntersection := (clippingDirection s = ''inside'')\<rparr>\<rparr>)"
proof -
  assume a: "\<not> isWebGPURenderer s" "clippingPolygon s = Some poly"
    "calculateClippingPlane poly = Some pl" "layerMesh s l = Some m"
  have len: "\<not> length poly < 3" using a(3) calculateClippingPlane_None_iff [of poly] by simp
  have cd: "clippingDirection (ensureClippingPlanes s (uuid m)) = clippingDirection s"
    by (simp add: ensureClippingPlanes_def split: option.splits)
  show ?thesis using a len cd
    by (cases "material_clippingPlanes (material m)")
       (simp_all add: clipSphereWithPolygon_def applyMaterialClipping_def Let_def)
qed

lemma layerMesh_other_fields [simp]:
  "layerMesh (s\<lparr>clippingPlanes := cp\<rparr>) l = layerMesh s l"
  "layerMesh (s\<lparr>originalGeometries := og\<rparr>) l = layerMesh s l"
  "layerMesh (s\<lparr>clippingPolygon := poly\<rparr>) l = layerMesh s l"
  "layerMesh (s\<lparr>clippingDirection := d\<rparr>) l = layerMesh s l"
  by (simp_all add: layerMesh_def)

lemma ensureClippingPlanes_fields [simp]:
  "isWebGPURenderer (ensureClippingPlanes s u) = isWebGPURenderer s"
  "clippingPolygon (ensureClippingPlanes s u) = clippingPolygon s"
  "originalPolygonPoints (ensureClippingPlanes s u) = originalPolygonPoints s"
  "originalGeometries (ensureClippingPlanes s u) = originalGeometries s"
  "clippingDirection (ensureClippingPlanes s u) = clippingDirection s"
  "realtimeClipping (ensureClippingPlanes s u) = realtimeClipping s"
  "polygonAxis (ensureClippingPlanes s u) = polygonAxis s"
  "polygonPosition (ensureClippingPlanes s u) = polygonPosition s"
  "polygonRotationAxis (ensureClippingPlanes s u) = polygonRotationAxis s"
  "polygonRotation (ensureClippingPlanes s u) = polygonRotation s"
  "clipCrust (ensureClippingPlanes s u) = clipCrust s"
  "clipMantle (ensureClippingPlanes s u) = clipMantle s"
  "clipCore (ensureClippingPlanes s u) = clipCore s"
  "crust (ensureClippingPlanes s u) = crust s"
  "mantle (ensureClippingPlanes s u) = mantle s"
  "core (ensureClippingPlanes s u) = core s"
  by (simp_all add: ensureClippingPlanes_def split: option.splits)

lemma layerMesh_ensure [simp]:
  "layerMesh (ensureClippingPlanes s u) l = layerMesh s l"
  by (simp add: ensureClippingPlanes_def split: option.splits)

lemma pristineGeometry_stored:
  "originalGeometries s' (uuid m') = Some g \<Longrightarrow> pristineGeometry s' m' = g"
  by (simp add: pristineGeometry_def)

lemma clip_restore_webgpu:
  assumes gpu: "isWebGPURenderer s" and mesh: "layerMesh s l = Some m"
  shows "layerMesh (restoreOriginalGeometry (clipSphereWithPolygon s l) l) l
           = Some (m\<lparr>geometry := pristineGeometry s m\<rparr>)"
proof (cases "\<exists>poly pl. clippingPolygon s = Some poly \<and> calculateClippingPlane poly = Some pl")
  case True
  then obtain poly pl where p: "clippingPolygon s = Some poly" "calculateClippingPlane poly = Some pl"
    by blast
  let ?s1 = "clipSphereWithPolygon s l"
  let ?m1 = "m\<lparr>geometry := clipGeometry (clippingDirection s) pl (pristineGeometry s m)\<rparr>"
  have s1: "layerMesh ?s1 l = Some ?m1" "isWebGPURenderer ?s1"
      "originalGeometries ?s1 (uuid m) = Some (pristineGeometry s m)"
    using gpu mesh p by (simp_all add: clip_webgpu layerMesh_putLayer)
  have "pristineGeometry ?s1 ?m1 = pristineGeometry s m"
    using s1(3) by (simp add: pristineGeometry_def)
  then show ?thesis
    using s1 by (simp add: restore_webgpu [OF s1(2) s1(1)] layerMesh_putLayer)
next
  case False
  then have "clipSphereWithPolygon s l = s"
    by (auto simp: clipSphereWithPolygon_def calculateClippingPlane_None_iff split: option.splits)
  then show ?thesis using gpu mesh by (simp add: restore_webgpu layerMesh_putLayer)
qed

text \<open>
  Claim C3. Under the geometry-partition strategy, clipping a layer and then restoring it
  leaves the layer's mesh with the pristine geometry, hence with the pristine vertex and
  triangle counts; when the layer had not been clipped before (nothing stored for its
  mesh), these are the geometry and the counts the mesh had before the clipping.
\<close>

theorem clip_restore_round_trip:
  assumes gpu: "isWebGPURenderer s" and mesh: "layerMesh s l = Some m"
    and after: "s' = restoreOriginalGeometry (clipSphereWithPolygon s l) l"
  shows "\<exists>m'. layerMesh s' l = Some m'
           \<and> geometry m' = pristineGeometry s m
           \<and> vertexCount (geometry m') = vertexCount (pristineGeometry s m)
           \<and> triangleCount (geometry m') = triangleCount (pristineGeometry s m)
           \<and> (originalGeometries s (uuid m) = None \<longrightarrow>
                  geometry m' = geometry m
                \<and> vertexCount (geometry m') = vertexCount (geometry m)
                \<and> triangleCount (geometry m') = triangleCount (geometry m))"
proof -
  have "layerMesh s' l = Some (m\<lparr>geometry := pristineGeometry s m\<rparr>)"
    unfolding after by (rule clip_restore_webgpu [OF gpu mesh])
  then show ?thesis by (auto simp: pristineGeometry_def)
qed

text \<open>
  Claim C4. With a clipping polygon of at least three points: clipping a layer, restoring
  it and clipping it again (same polygon, hence same plane, and same direction) gives
  the same geometry, and so the same vertex and triangle counts, as clipping it once;
  under the geometry-partition strategy that geometry is the clipping of the pristine
  mesh.
\<close>

theorem reclip_after_restore_same:
  assumes poly: "clippingPolygon s = Some poly" and len: "3 \<le> length poly"
    and once: "once = clipSphereWithPolygon s l"
    and again: "again = clipSphereWithPolygon (restoreOriginalGeometry (clipSphereWithPolygon s l) l) l"
  shows "map_option geometry (layerMesh again l) = map_option geometry (layerMesh once l)
       \<and> map_option (vertexCount \<circ> geometry) (layerMesh again l)
           = map_option (vertexCount \<circ> geometry) (layerMesh once l)
       \<and> map_option (triangleCount \<circ> geometry) (layerMesh again l)
           = map_option (triangleCount \<circ> geometry) (layerMesh once l)
       \<and> (\<forall>m pl. isWebGPURenderer s \<and> layerMesh s l = Some m
                 \<and> calculateClippingPlane poly = Some pl \<longrightarrow>
               map_option geometry (layerMesh once l)
                 = Some (clipGeometry (clippingDirection s) pl (pristineGeometry s m)))"
proof -
  obtain pl where pl: "calculateClippingPlane poly = Some pl"
    using len calculateClippingPlane_None_iff [of poly] by (cases "calculateClippingPlane poly") auto
  have main: "map_option geometry (layerMesh again l) = map_option geometry (layerMesh once l)
      \<and> (\<forall>m pl. isWebGPURenderer s \<and> layerMesh s l = Some m
                 \<and> calculateClippingPlane poly = Some pl \<longrightarrow>
               map_option geometry (layerMesh once l)
                 = Some (clipGeometry (clippingDirection s) pl (pristineGeometry s m)))"
  proof (cases "layerMesh s l")
    case None
    then show ?thesis by (simp add: once again clip_absent restore_absent)
  next
    case (Some m)
    show ?thesis
    proof (cases "isWebGPURenderer s")
      case True
      let ?s1 = "clipSphereWithPolygon s l"
      let ?s2 = "restoreOriginalGeometry ?s1 l"
      let ?g = "clipGeometry (clippingDirection s) pl (pristineGeometry s m)"
      have s1: "layerMesh ?s1 l = Some (m\<lparr>geometry := ?g\<rparr>)"
        using True Some poly pl by (simp add: clip_webgpu layerMesh_putLayer)
      have s1f: "isWebGPURenderer ?s1" "clippingPolygon ?s1 = Some poly"
          "clippingDirection ?s1 = clippingDirection s"
          "originalGeometries ?s1 (uuid m) = Some (pristineGeometry s m)"
        using True Some poly pl by (simp_all add: clip_webgpu)
      have s2: "layerMesh ?s2 l = Some (m\<lparr>geometry := pristineGeometry s m\<rparr>)"
        by (rule clip_restore_webgpu [OF True Some])
      have s2f: "isWebGPURenderer ?s2" "clippingPolygon ?s2 = Some poly"
          "clippingDirection ?s2 = clippingDirection s"
          "originalGeometries ?s2 (uuid m) = Some (pristineGeometry s m)"
        using s1f by (simp_all add: restore_webgpu [OF s1f(1) s1])
      have "pristineGeometry ?s2 (m\<lparr>geometry := pristineGeometry s m\<rparr>) = pristineGeometry s m"
        using s2f(4) by (simp add: pristineGeometry_def)
      then have "layerMesh again l = Some (m\<lparr>geometry := ?g\<rparr>)"
        unfolding again using s2f
        by (simp add: clip_webgpu [OF s2f(1) s2f(2) pl s2] layerMesh_putLayer s2)
      then show ?thesis using s1 Some pl by (simp add: once)
    next
      case False
      let ?s1 = "clipSphereWithPolygon s l"
      let ?s2 = "restoreOriginalGeometry ?s1 l"
      obtain m1 where s1: "layerMesh ?s1 l = Some m1" "geometry m1 = geometry m"
        using False Some poly pl by (simp add: clip_webgl layerMesh_putLayer)
      have s1f: "\<not> isWebGPURenderer ?s1" "clippingPolygon ?s1 = Some poly"
        using False Some poly pl by (simp_all add: clip_webgl ensureClippingPlanes_def split: option.splits)
      obtain m2 where s2: "layerMesh ?s2 l = Some m2" "geometry m2 = geometry m"
        using s1 by (simp add: restore_webgl [OF s1f(1) s1(1)] layerMesh_putLayer)
      have s2f: "\<not> isWebGPURenderer ?s2" "clippingPolygon ?s2 = Some poly"
        using s1f by (simp_all add: restore_webgl [OF s1f(1) s1(1)])
      obtain m3 where s3: "layerMesh again l = Some m3" "geometry m3 = geometry m"
        unfolding again using s2
        by (simp add: clip_webgl [OF s2f(1) s2f(2) pl s2(1)] layerMesh_putLayer)
      show ?thesis using s1 s3 False by (simp add: once)
    qed
  qed
  then show ?thesis by (simp add: option.map_comp [symmetric])
qed

lemma calculateClippingPlane_flat: "calculateClippingPlane flatPolygon = Some flatPlane"
  by (simp add: calculateClippingPlane_def flatPolygon_def flatPlane_def sub_def cross_def
        normalize_def vlength_def multiplyScalar_def dot_def)

lemma calculateClippingPlane_collinear:
  "calculateClippingPlane collinearPolygon = Some \<lparr> plane_normal = Vector3 0 0 0, plane_d = 0 \<rparr>"
  by (simp add: calculateClippingPlane_def collinearPolygon_def sub_def cross_def
        normalize_def vlength_def multiplyScalar_def dot_def)

lemma clipGeometry_tetra: "clipGeometry ''outside'' flatPlane tetra = tetraTop"
  by (simp add: clipGeometry_eq keptTriangles_def allVisible_def remapTriangle_def newIndexOf_def
        shouldShow_def flatPlane_def tetra_def tetraTop_def dot_def)

lemma demo_fields:
  "isWebGPURenderer demo" "layerMesh demo ''crust'' = Some crustMesh"
  "clippingPolygon demo = Some flatPolygon" "clippingDirection demo = ''outside''"
  "pristineGeometry demo crustMesh = tetra" "originalGeometries demo (uuid crustMesh) = None"
  by (simp_all add: demo_def layerMesh_def pristineGeometry_def crustMesh_def)

lemma demo_clip_crust:
  "layerMesh (clipSphereWithPolygon demo ''crust'') ''crust'' = Some (crustMesh\<lparr>geometry := tetraTop\<rparr>)"
  by (simp add: clip_webgpu [OF demo_fields(1) demo_fields(3) calculateClippingPlane_flat demo_fields(2)]
        layerMesh_putLayer demo_fields clipGeometry_tetra)

theorem clip_restore_round_trip_witness:
  "isWebGPURenderer demo \<and> layerMesh demo ''crust'' = Some crustMesh
   \<and> map_option (vertexCount \<circ> geometry) (layerMesh (clipSphereWithPolygon demo ''crust'') ''crust'')
       = Some 3
   \<and> map_option geometry
         (layerMesh (restoreOriginalGeometry (clipSphereWithPolygon demo ''crust'') ''crust'') ''crust'')
       = Some tetra
   \<and> vertexCount tetra = 4 \<and> triangleCount tetra = 2"
proof -
  have clipped: "map_option (vertexCount \<circ> geometry)
      (layerMesh (clipSphereWithPolygon demo ''crust'') ''crust'') = Some 3"
    by (simp add: demo_clip_crust vertexCount_def tetraTop_def)
  have counts: "vertexCount tetra = 4" "triangleCount tetra = 2"
    by (simp_all add: vertexCount_def triangleCount_def tetra_def)
  from clip_restore_round_trip [OF demo_fields(1) demo_fields(2) refl]
  show ?thesis using clipped counts by (auto simp: demo_fields)
qed

theorem reclip_after_restore_same_witness:
  "clippingPolygon demo = Some flatPolygon \<and> 3 \<le> length flatPolygon
   \<and> map_option (vertexCount \<circ> geometry)
         (layerMesh (clipSphereWithPolygon
            (restoreOriginalGeometry (clipSphereWithPolygon demo ''crust'') ''crust'') ''crust'') ''crust'')
       = Some 3
   \<and> map_option (triangleCount \<circ> geometry)
         (layerMesh (clipSphereWithPolygon
            (restoreOriginalGeometry (clipSphereWithPolygon demo ''crust'') ''crust'') ''crust'') ''crust'')
       = Some 1"
proof -
  have len: "3 \<le> length flatPolygon" by (simp add: flatPolygon_def)
  have once: "map_option (vertexCount \<circ> geometry)
        (layerMesh (clipSphereWithPolygon demo ''crust'') ''crust'') = Some 3"
      "map_option (triangleCount \<circ> geometry)
        (layerMesh (clipSphereWithPolygon demo ''crust'') ''crust'') = Some 1"
    by (simp_all add: demo_clip_crust vertexCount_def triangleCount_def tetraTop_def)
  from reclip_after_restore_same [OF demo_fields(3) len refl refl, of "''crust''"]
  show ?thesis
    by (simp only: once demo_fields(3) len simp_thms)
qed

text \<open>
  Claim C2 as stated fails at a collinear polygon. The solver does not report a
  degenerate result: it returns the zero normal with offset 0, and the clipping of the
  crust goes ahead and removes every vertex of the mesh (the signed distance of every
  vertex is 0, which is visible in neither direction).
\<close>

theorem collinear_polygon_still_clips:
  "calculateClippingPlane collinearPolygon = Some \<lparr> plane_normal = Vector3 0 0 0, plane_d = 0 \<rparr>
   \<and> map_option geometry
         (layerMesh (clipSphereWithPolygon (demo\<lparr>clippingPolygon := Some collinearPolygon\<rparr>) ''crust'')
            ''crust'')
       = Some \<lparr> positions = [], index = None \<rparr>
   \<and> map_option geometry (layerMesh demo ''crust'') = Some tetra"
proof -
  let ?s = "demo\<lparr>clippingPolygon := Some collinearPolygon\<rparr>"
  have f: "isWebGPURenderer ?s" "clippingPolygon ?s = Some collinearPolygon"
    "layerMesh ?s ''crust'' = Some crustMesh" "clippingDirection ?s = ''outside''"
    "pristineGeometry ?s crustMesh = tetra"
    by (simp_all add: demo_fields pristineGeometry_def) (simp_all add: demo_def crustMesh_def)
  have g: "clipGeometry ''outside'' \<lparr> plane_normal = Vector3 0 0 0, plane_d = 0 \<rparr> tetra
      = \<lparr> positions = [], index = None \<rparr>"
    by (simp add: clipGeometry_eq keptTriangles_def allVisible_def shouldShow_def tetra_def dot_def)
  show ?thesis
    by (simp add: calculateClippingPlane_collinear
          clip_webgpu [OF f(1) f(2) calculateClippingPlane_collinear f(3)]
          layerMesh_putLayer f g demo_fields)
       (simp add: crustMesh_def)
qed

text \<open>
  \<open>updateMaterialClipping\<close> rewrites the first plane of the material's list in place, and
  creates a one-plane list when there is none.
\<close>

lemma updateMaterialClipping_in_place:
  assumes "clippingPolygon s = Some poly" "calculateClippingPlane poly = Some pl"
    "layerMesh s l = Some m"
  shows "map_option (material_clippingPlanes \<circ> material) (layerMesh (updateMaterialClipping s l) l)
           = Some (Some (case material_clippingPlanes (material m) of
                           Some (first # others) \<Rightarrow>
                             \<lparr> plane_normal = plane_normal pl, plane_d = plane_d pl \<rparr> # others
                         | _ \<Rightarrow> [\<lparr> plane_normal = plane_normal pl, plane_d = plane_d pl \<rparr>]))"
proof -
  have len: "\<not> length poly < 3" using assms(2) calculateClippingPlane_None_iff [of poly] by simp
  show ?thesis
    using assms len
    by (simp add: updateMaterialClipping_def Let_def layerMesh_putLayer
             split: option.splits list.splits)
qed


section \<open>The polygon transformer recomputes from the original points\<close>

lemma polygonSettings_putLayer [simp]: "polygonSettings (putLayer s l m) = polygonSettings s"
  by (simp add: polygonSettings_def)

lemma polygonSettings_applyMaterialClipping:
  "polygonSettings (fst (applyMaterialClipping s m pl)) = polygonSettings s"
  by (simp add: applyMaterialClipping_def applyWebGPUClipping_def applyGeometryClipping_eq
        polygonSettings_def Let_def)

lemma polygonSettings_clip [simp]:
  "polygonSettings (clipSphereWithPolygon s l) = polygonSettings s"
  by (simp add: clipSphereWithPolygon_def polygonSettings_applyMaterialClipping case_prod_beta
           split: option.splits)

lemma polygonSettings_updateMaterial [simp]:
  "polygonSettings (updateMaterialClipping s l) = polygonSettings s"
  by (simp add: updateMaterialClipping_def Let_def split: option.splits)

lemma polygonSettings_realtime [simp]:
  "polygonSettings (applyRealtimeClipping s) = polygonSettings s"
  by (simp add: applyRealtimeClipping_def Let_def)

lemma polygonSettings_onMove [simp]:
  "polygonSettings (updateClippingOnPolygonMove s) = polygonSettings s"
  by (simp add: updateClippingOnPolygonMove_def Let_def)

lemma polygonSettings_after [simp]:
  "polygonSettings (afterPolygonMove s) = polygonSettings s"
  by (simp add: afterPolygonMove_def)

lemma forEachPoint_map:
  "length working = length originals \<Longrightarrow> forEachPoint f working originals = Inr (map f originals)"
  by (induction f working originals rule: forEachPoint.induct) simp_all

lemma applyMatrix4_rotation_zero: "applyMatrix4 p (rotationMatrix axis 0) = p"
  by (cases p)
     (simp add: rotationMatrix_def makeRotationX_def makeRotationY_def makeRotationZ_def
        identity4_def)

lemma moveAlong_zero: "moveAlong axis 0 p = p"
  by (cases p) (simp add: moveAlong_def)

lemma transformPoint_identity:
  "polygonRotation s = 0 \<Longrightarrow> polygonPosition s = 0 \<Longrightarrow> transformPoint s p = p"
  by (simp add: transformPoint_def applyMatrix4_rotation_zero)

lemma positionPoint_identity:
  "polygonRotation s = 0 \<Longrightarrow> polygonPosition s = 0 \<Longrightarrow> positionPoint s p = p"
  by (simp add: positionPoint_def moveAlong_zero)

lemma transformPoint_cong:
  "polygonAxis s' = polygonAxis s \<Longrightarrow> polygonPosition s' = polygonPosition s \<Longrightarrow>
   polygonRotationAxis s' = polygonRotationAxis s \<Longrightarrow> polygonRotation s' = polygonRotation s \<Longrightarrow>
   transformPoint s' = transformPoint s"
  by (rule ext) (auto simp: transformPoint_def Let_def)

lemma positionPoint_cong:
  "polygonAxis s' = polygonAxis s \<Longrightarrow> polygonPosition s' = polygonPosition s \<Longrightarrow>
   polygonRotationAxis s' = polygonRotationAxis s \<Longrightarrow> polygonRotation s' = polygonRotation s \<Longrightarrow>
   positionPoint s' = positionPoint s"
  by (rule ext) (auto simp: positionPoint_def Let_def)

lemma updatePolygonTransform_result:
  assumes "originalPolygonPoints s = Some originals" "clippingPolygon s = Some working"
    "length working = length originals"
  shows "\<exists>s'. updatePolygonTransform s = Inr s'
           \<and> polygonSettings s' = polygonSettings (s\<lparr>clippingPolygon := Some (map (transformPoint s) originals)\<rparr>)"
  using assms by (simp add: updatePolygonTransform_def forEachPoint_map)

lemma updatePolygonPosition_result:
  assumes "originalPolygonPoints s = Some originals" "clippingPolygon s = Some working"
    "length working = length originals"
  shows "\<exists>s'. updatePolygonPosition s = Inr s'
           \<and> polygonSettings s' = polygonSettings (s\<lparr>clippingPolygon := Some (map (positionPoint s) originals)\<rparr>)"
  using assms by (simp add: updatePolygonPosition_def forEachPoint_map)

text \<open>
  Claim C5. With working and original point sets of the same length: for every choice
  of the two axes, recomputing the working polygon with rotation 0 and translation 0
  (by either function) returns and leaves the working points equal to the original
  points; and for any rotation and translation, recomputing twice with the same
  parameters leaves the working points of the first recomputation unchanged, these being
  the image of the original points.
\<close>

theorem recompute_from_original:
  assumes orig: "originalPolygonPoints s = Some originals"
    and work: "clippingPolygon s = Some working"
    and len: "length working = length originals"
  shows "(polygonRotation s = 0 \<and> polygonPosition s = 0 \<longrightarrow>
            (\<exists>s'. updatePolygonTransform s = Inr s' \<and> clippingPolygon s' = Some originals)
          \<and> (\<exists>s'. updatePolygonPosition s = Inr s' \<and> clippingPolygon s' = Some originals))
       \<and> (\<exists>s1 s2. updatePolygonTransform s = Inr s1 \<and> updatePolygonTransform s1 = Inr s2
              \<and> clippingPolygon s1 = Some (map (transformPoint s) originals)
              \<and> originalPolygonPoints s1 = Some originals
              \<and> clippingPolygon s2 = clippingPolygon s1)
       \<and> (\<exists>s1 s2. updatePolygonPosition s = Inr s1 \<and> updatePolygonPosition s1 = Inr s2
              \<and> clippingPolygon s1 = Some (map (positionPoint s) originals)
              \<and> originalPolygonPoints s1 = Some originals
              \<and> clippingPolygon s2 = clippingPolygon s1)"
proof -
  obtain t1 where t1: "updatePolygonTransform s = Inr t1"
      "polygonSettings t1 = polygonSettings (s\<lparr>clippingPolygon := Some (map (transformPoint s) originals)\<rparr>)"
    using updatePolygonTransform_result [OF orig work len] by blast
  have t1f: "originalPolygonPoints t1 = Some originals"
      "clippingPolygon t1 = Some (map (transformPoint s) originals)"
      "transformPoint t1 = transformPoint s"
    using t1(2) orig transformPoint_cong [of t1 s] by (auto simp: polygonSettings_def)
  obtain t2 where t2: "updatePolygonTransform t1 = Inr t2"
      "polygonSettings t2 = polygonSettings (t1\<lparr>clippingPolygon := Some (map (transformPoint t1) originals)\<rparr>)"
    using updatePolygonTransform_result [OF t1f(1) t1f(2)] by auto
  have t2f: "clippingPolygon t2 = clippingPolygon t1"
    using t2(2) t1f by (simp add: polygonSettings_def)
  obtain p1 where p1: "updatePolygonPosition s = Inr p1"
      "polygonSettings p1 = polygonSettings (s\<lparr>clippingPolygon := Some (map (positionPoint s) originals)\<rparr>)"
    using updatePolygonPosition_result [OF orig work len] by blast
  have p1f: "originalPolygonPoints p1 = Some originals"
      "clippingPolygon p1 = Some (map (positionPoint s) originals)"
      "positionPoint p1 = positionPoint s"
    using p1(2) orig positionPoint_cong [of p1 s] by (auto simp: polygonSettings_def)
  obtain p2 where p2: "updatePolygonPosition p1 = Inr p2"
      "polygonSettings p2 = polygonSettings (p1\<lparr>clippingPolygon := Some (map (positionPoint p1) originals)\<rparr>)"
    using updatePolygonPosition_result [OF p1f(1) p1f(2)] by auto
  have p2f: "clippingPolygon p2 = clippingPolygon p1"
    using p2(2) p1f by (simp add: polygonSettings_def)
  have zero: "polygonRotation s = 0 \<and> polygonPosition s = 0 \<longrightarrow>
      clippingPolygon t1 = Some originals \<and> clippingPolygon p1 = Some originals"
    using t1f(2) p1f(2)
    by (auto simp: transformPoint_identity positionPoint_identity map_idI)
  show ?thesis using t1(1) t2(1) t1f t2f p1(1) p2(1) p1f p2f zero by simp
qed

theorem recompute_from_original_witness:
  "originalPolygonPoints demo = Some flatPolygon \<and> clippingPolygon demo = Some flatPolygon
   \<and> polygonRotation demo = 0 \<and> polygonPosition demo = 0
   \<and> (\<exists>s'. updatePolygonTransform demo = Inr s' \<and> clippingPolygon s' = Some flatPolygon)
   \<and> (\<exists>s'. updatePolygonPosition (demo\<lparr>polygonPosition := 10\<rparr>) = Inr s'
          \<and> clippingPolygon s' = Some [Vector3 0 0 10, Vector3 1 0 10, Vector3 0 1 10, Vector3 1 1 10])"
proof -
  have f: "originalPolygonPoints demo = Some flatPolygon" "clippingPolygon demo = Some flatPolygon"
    "polygonRotation demo = 0" "polygonPosition demo = 0"
    by (simp_all add: demo_def)
  let ?d = "demo\<lparr>polygonPosition := 10\<rparr>"
  have g: "originalPolygonPoints ?d = Some flatPolygon" "clippingPolygon ?d = Some flatPolygon"
    by (simp_all add: demo_def)
  have m: "map (positionPoint ?d) flatPolygon
      = [Vector3 0 0 10, Vector3 1 0 10, Vector3 0 1 10, Vector3 1 1 10]"
    by (simp add: positionPoint_def moveAlong_def flatPolygon_def demo_def)
  from recompute_from_original [OF f(1) f(2) refl] recompute_from_original [OF g(1) g(2) refl]
  show ?thesis using f m by auto
qed

section \<open>The brush in extrude mode\<close>

lemma smoothstep_falloff_pos:
  fixes t :: real
  assumes "0 \<le> t" "t < 1"
  shows "0 < 1 - (3 * t * t - 2 * t * t * t)"
proof -
  have "1 - (3 * t * t - 2 * t * t * t) = (1 - t) * (1 - t) * (1 + 2 * t)"
    by (simp add: algebra_simps)
  moreover have "0 < (1 - t) * (1 - t) * (1 + 2 * t)"
    using assms by (intro mult_pos_pos) simp_all
  ultimately show ?thesis by simp
qed

lemma vlength_nonneg: "0 \<le> vlength v"
  by (simp add: vlength_def)

lemma vlength_multiplyScalar: "vlength (multiplyScalar v k) = \<bar>k\<bar> * vlength v"
proof -
  have "vx v * k * (vx v * k) + vy v * k * (vy v * k) + vz v * k * (vz v * k)
      = (k * k) * (vx v * vx v + vy v * vy v + vz v * vz v)"
    by (simp add: algebra_simps)
  then show ?thesis
    by (simp add: vlength_def multiplyScalar_def real_sqrt_mult)
qed

lemma push_along_normal:
  assumes "vlength v \<noteq> 0"
  shows "add v (multiplyScalar (normalize v) c) = multiplyScalar v (1 + c / vlength v)"
  using assms
  by (simp add: add_def multiplyScalar_def normalize_def algebra_simps)

lemma vlength_zero_vec: "vlength v = 0 \<Longrightarrow> v = Vector3 0 0 0"
proof -
  assume "vlength v = 0"
  then have "vx v * vx v + vy v * vy v + vz v * vz v = 0"
    by (simp add: vlength_def)
  then have "vx v = 0 \<and> vy v = 0 \<and> vz v = 0"
    by (metis add_nonneg_eq_0_iff mult_eq_0_iff zero_le_square add_nonneg_nonneg)
  then show ?thesis by (cases v) simp
qed

lemma vlength_pushed:
  assumes "0 < c"
  shows "add v (multiplyScalar (normalize v) c) = v
       \<or> vlength (add v (multiplyScalar (normalize v) c)) = vlength v + c \<and> vlength v \<noteq> 0"
proof (cases "vlength v = 0")
  case True
  then have "v = Vector3 0 0 0" by (rule vlength_zero_vec)
  then show ?thesis by (simp add: add_def multiplyScalar_def normalize_def)
next
  case False
  then have pos: "0 < vlength v" using vlength_nonneg [of v] by simp
  have "vlength (add v (multiplyScalar (normalize v) c)) = \<bar>1 + c / vlength v\<bar> * vlength v"
    by (simp add: push_along_normal [OF False] vlength_multiplyScalar)
  also have "\<dots> = (1 + c / vlength v) * vlength v"
    using pos assms by (simp add: abs_of_pos add_pos_pos)
  also have "\<dots> = vlength v + c"
    using False by (simp add: algebra_simps)
  finally show ?thesis using False by simp
qed

lemma distanceTo_euclidean: "distanceTo a b = euclidean a b"
  by (simp add: distanceTo_def vlength_def sub_def euclidean_def power2_eq_square)

lemma vlength_radialDistance: "vlength v = radialDistance v"
  by (simp add: vlength_def radialDistance_def power2_eq_square)

lemma falloff_code:
  "1 - (3 * (distanceTo v p / brushSize s) * (distanceTo v p / brushSize s)
        - 2 * (distanceTo v p / brushSize s) * (distanceTo v p / brushSize s)
            * (distanceTo v p / brushSize s))
   = falloff s p v"
  by (simp add: falloff_def Let_def distanceTo_euclidean power2_eq_square power3_eq_cube
        algebra_simps)

lemma displacement_code:
  "multiplyScalar (normalize v) (intensity s * falloff s p v) = displacement s p v"
proof (cases "vlength v = 0")
  case True
  then have "v = Vector3 0 0 0" by (rule vlength_zero_vec)
  then show ?thesis
    by (simp add: displacement_def normalize_def multiplyScalar_def Let_def)
next
  case False
  then show ?thesis
    by (simp add: displacement_def normalize_def multiplyScalar_def Let_def
          vlength_radialDistance [symmetric] algebra_simps)
qed

lemma add_displacement: "add v (displacement s p v) = displaced s p v"
  by (simp add: add_def displaced_def)

lemma sculptVertex_extrude_eq:
  assumes m: "mode s = ''extrude''"
  shows "sculptVertex s p v = (if brushMoves s p v then displaced s p v else v)"
proof -
  have d: "vx (displaced s p v) - vx v = vx (displacement s p v)"
       "vy (displaced s p v) - vy v = vy (displacement s p v)"
       "vz (displaced s p v) - vz v = vz (displacement s p v)"
    by (simp_all add: displaced_def)
  have "sculptVertex s p v =
      (if distanceTo v p < brushSize s
       then (if \<bar>vx (displaced s p v) - vx v\<bar> > 1 / 1000
                \<or> \<bar>vy (displaced s p v) - vy v\<bar> > 1 / 1000
                \<or> \<bar>vz (displaced s p v) - vz v\<bar> > 1 / 1000
             then displaced s p v else v)
       else v)"
    unfolding sculptVertex_def Let_def falloff_code displacement_code add_displacement
    using m by simp
  then show ?thesis by (simp only: d) (simp add: brushMoves_def distanceTo_euclidean)
qed

lemma falloff_pos:
  assumes "euclidean v p < brushSize s"
  shows "0 < falloff s p v"
proof -
  have d0: "0 \<le> euclidean v p" by (simp add: euclidean_def)
  then have b: "0 < brushSize s" using assms by simp
  have t: "0 \<le> euclidean v p / brushSize s" "euclidean v p / brushSize s < 1"
    using d0 b assms by simp_all
  show ?thesis using smoothstep_falloff_pos [OF t]
    by (simp add: falloff_def Let_def power2_eq_square power3_eq_cube algebra_simps)
qed

lemma brushMoves_grows:
  assumes i: "0 < intensity s" and mv: "brushMoves s p v"
  shows "radialDistance (displaced s p v) = radialDistance v + falloff s p v * intensity s
       \<and> 0 < falloff s p v"
proof -
  have f: "0 < falloff s p v" using mv by (simp add: brushMoves_def falloff_pos)
  have c: "0 < intensity s * falloff s p v" using i f by (rule mult_pos_pos)
  have "displacement s p v \<noteq> Vector3 0 0 0"
    using mv by (auto simp: brushMoves_def)
  then have ne: "add v (multiplyScalar (normalize v) (intensity s * falloff s p v)) \<noteq> v"
    unfolding displacement_code
    by (cases v; cases "displacement s p v") (simp add: add_def)
  from vlength_pushed [OF c, of v] ne
  have "vlength (add v (multiplyScalar (normalize v) (intensity s * falloff s p v)))
      = vlength v + intensity s * falloff s p v" by blast
  then show ?thesis
    using f by (simp add: displacement_code add_displacement vlength_radialDistance mult.commute)
qed

lemma sculptVertex_each:
  assumes m: "mode s = ''extrude''" and i: "0 < intensity s"
  shows "(brushMoves s p v \<longrightarrow>
            sculptVertex s p v = displaced s p v
          \<and> 0 < falloff s p v
          \<and> radialDistance (sculptVertex s p v) = radialDistance v + falloff s p v * intensity s
          \<and> radialDistance v < radialDistance (sculptVertex s p v))
       \<and> (\<not> brushMoves s p v \<longrightarrow> sculptVertex s p v = v)"
proof (cases "brushMoves s p v")
  case True
  from brushMoves_grows [OF i True] have g:
    "radialDistance (displaced s p v) = radialDistance v + falloff s p v * intensity s"
    "0 < falloff s p v" by simp_all
  have "0 < falloff s p v * intensity s" using g(2) i by (rule mult_pos_pos)
  then show ?thesis using True g by (simp add: sculptVertex_extrude_eq [OF m])
next
  case False
  then show ?thesis by (simp add: sculptVertex_extrude_eq [OF m])
qed

text \<open>
  Claim C6, amended. In a brush application in extrude mode with positive strength, every
  vertex that lies within the brush radius of the hit point and whose displacement
  (smoothstep falloff times strength, along the vertex's own unit radial direction)
  exceeds 0.001 on some axis is moved by exactly that displacement, and its distance
  from the sphere centre grows by exactly falloff times strength, so strictly; every
  other vertex keeps its position.
\<close>

theorem extrude_displaces_outward:
  assumes m: "mode s = ''extrude''" and i: "0 < intensity s"
    and terrain: "crust s = Some terrain"
    and old: "old = positions (geometry terrain)"
    and new: "new = map_option (positions \<circ> geometry) (crust (editTerrain s (Some localPoint)))"
  shows "\<exists>moved. new = Some moved \<and> length moved = length old
           \<and> (\<forall>k < length old.
                 (brushMoves s localPoint (old ! k) \<longrightarrow>
                    moved ! k = displaced s localPoint (old ! k)
                  \<and> 0 < falloff s localPoint (old ! k)
                  \<and> radialDistance (moved ! k)
                      = radialDistance (old ! k) + falloff s localPoint (old ! k) * intensity s
                  \<and> radialDistance (old ! k) < radialDistance (moved ! k))
               \<and> (\<not> brushMoves s localPoint (old ! k) \<longrightarrow> moved ! k = old ! k))"
proof -
  have n: "new = Some (map (sculptVertex s localPoint) old)"
    using terrain old by (simp add: new editTerrain_def)
  show ?thesis
  proof (intro exI conjI)
    show "new = Some (map (sculptVertex s localPoint) old)" by (rule n)
    show "length (map (sculptVertex s localPoint) old) = length old" by simp
    show "\<forall>k < length old.
          (brushMoves s localPoint (old ! k) \<longrightarrow>
             map (sculptVertex s localPoint) old ! k = displaced s localPoint (old ! k)
           \<and> 0 < falloff s localPoint (old ! k)
           \<and> radialDistance (map (sculptVertex s localPoint) old ! k)
               = radialDistance (old ! k) + falloff s localPoint (old ! k) * intensity s
           \<and> radialDistance (old ! k) < radialDistance (map (sculptVertex s localPoint) old ! k))
        \<and> (\<not> brushMoves s localPoint (old ! k) \<longrightarrow>
             map (sculptVertex s localPoint) old ! k = old ! k)"
    proof (intro allI impI)
      fix k assume k: "k < length old"
      have nth: "map (sculptVertex s localPoint) old ! k = sculptVertex s localPoint (old ! k)"
        using k by simp
      show "(brushMoves s localPoint (old ! k) \<longrightarrow>
             map (sculptVertex s localPoint) old ! k = displaced s localPoint (old ! k)
           \<and> 0 < falloff s localPoint (old ! k)
           \<and> radialDistance (map (sculptVertex s localPoint) old ! k)
               = radialDistance (old ! k) + falloff s localPoint (old ! k) * intensity s
           \<and> radialDistance (old ! k) < radialDistance (map (sculptVertex s localPoint) old ! k))
        \<and> (\<not> brushMoves s localPoint (old ! k) \<longrightarrow>
             map (sculptVertex s localPoint) old ! k = old ! k)"
        unfolding nth by (rule sculptVertex_each [OF m i])
    qed
  qed
qed

lemma sqrt_9801_25: "sqrt (9801 / 25) = 99 / 5"
  by (rule real_sqrt_unique) (simp_all add: power2_eq_square)

lemma sqrt_2500: "sqrt 2500 = 50"
  by (rule real_sqrt_unique) (simp_all add: power2_eq_square)

lemma rim_distance: "euclidean (Vector3 0 0 50) (Vector3 0 (99 / 5) 50) = 99 / 5"
  by (simp add: euclidean_def power2_eq_square sqrt_9801_25)

lemma rim_fields:
  "mode rimScene = ''extrude''" "intensity rimScene = 2" "brushSize rimScene = 20"
  "crust rimScene
     = Some (crustMesh\<lparr>geometry := \<lparr> positions = [Vector3 0 0 50], index = None \<rparr>\<rparr>)"
  by (simp_all add: rimScene_def demo_def)

lemma rim_displacement:
  "displacement rimScene (Vector3 0 (99 / 5) 50) (Vector3 0 0 50) = Vector3 0 0 (149 / 250000)"
  by (simp add: displacement_def falloff_def rim_distance rim_fields radialDistance_def
        sqrt_2500 Let_def power2_eq_square power3_eq_cube)

text \<open>
  Claim C6 as stated fails for a vertex within the radius whose displacement stays under
  the threshold: with radius 20 and strength 2, the vertex (0, 0, 50) at distance 19.8
  from the hit point has displacement 0.000596 and is left where it was, so its
  distance from the centre does not increase.
\<close>

theorem vertex_in_range_not_moved:
  "mode rimScene = ''extrude'' \<and> 0 < intensity rimScene \<and> 0 < brushSize rimScene
   \<and> map_option (positions \<circ> geometry) (crust rimScene) = Some [Vector3 0 0 50]
   \<and> euclidean (Vector3 0 0 50) (Vector3 0 (99 / 5) 50) < brushSize rimScene
   \<and> map_option (positions \<circ> geometry) (crust (editTerrain rimScene (Some (Vector3 0 (99 / 5) 50))))
       = Some [Vector3 0 0 50]"
proof -
  have "\<not> brushMoves rimScene (Vector3 0 (99 / 5) 50) (Vector3 0 0 50)"
    by (simp add: brushMoves_def rim_displacement)
  then have "sculptVertex rimScene (Vector3 0 (99 / 5) 50) (Vector3 0 0 50) = Vector3 0 0 50"
    by (simp add: sculptVertex_extrude_eq [OF rim_fields(1)])
  then show ?thesis
    by (simp add: editTerrain_def rim_fields rim_distance)
qed

theorem extrude_displaces_outward_witness:
  "mode poleScene = ''extrude'' \<and> 0 < intensity poleScene
   \<and> map_option (positions \<circ> geometry) (crust poleScene) = Some [Vector3 0 0 1]
   \<and> brushMoves poleScene (Vector3 0 0 1) (Vector3 0 0 1)
   \<and> displacement poleScene (Vector3 0 0 1) (Vector3 0 0 1) = Vector3 0 0 2
   \<and> map_option (positions \<circ> geometry) (crust (editTerrain poleScene (Some (Vector3 0 0 1))))
       = Some [Vector3 0 0 3]
   \<and> radialDistance (Vector3 0 0 3) = radialDistance (Vector3 0 0 1) + 2"
proof -
  let ?t = "crustMesh\<lparr>geometry := \<lparr> positions = [Vector3 0 0 1], index = None \<rparr>\<rparr>"
  have f: "mode poleScene = ''extrude''" "0 < intensity poleScene" "crust poleScene = Some ?t"
    "intensity poleScene = 2" "brushSize poleScene = 20"
    by (simp_all add: poleScene_def demo_def)
  have eu: "euclidean (Vector3 0 0 1) (Vector3 0 0 1) = 0" by (simp add: euclidean_def)
  have fo: "falloff poleScene (Vector3 0 0 1) (Vector3 0 0 1) = 1"
    by (simp add: falloff_def eu)
  have d: "displacement poleScene (Vector3 0 0 1) (Vector3 0 0 1) = Vector3 0 0 2"
    by (simp add: displacement_def fo f radialDistance_def)
  have mv: "brushMoves poleScene (Vector3 0 0 1) (Vector3 0 0 1)"
    by (simp add: brushMoves_def d f eu)
  have a: "displaced poleScene (Vector3 0 0 1) (Vector3 0 0 1) = Vector3 0 0 3"
    by (simp add: displaced_def d)
  have e: "map_option (positions \<circ> geometry) (crust (editTerrain poleScene (Some (Vector3 0 0 1))))
      = Some [Vector3 0 0 3]"
    by (simp add: editTerrain_def f(3) sculptVertex_extrude_eq [OF f(1)] mv a)
  from extrude_displaces_outward [OF f(1) f(2) f(3) refl refl, of "Vector3 0 0 1"]
  obtain moved where r: "Some [Vector3 0 0 3] = Some moved"
      "brushMoves poleScene (Vector3 0 0 1) (Vector3 0 0 1) \<longrightarrow>
         radialDistance (moved ! 0) = radialDistance (Vector3 0 0 1)
           + falloff poleScene (Vector3 0 0 1) (Vector3 0 0 1) * intensity poleScene"
    unfolding e by auto
  from r mv have "radialDistance (Vector3 0 0 3) = radialDistance (Vector3 0 0 1) + 2"
    by (auto simp: fo f(4))
  then show ?thesis using f(1,2) mv d e by (simp add: f(3))
qed

section \<open>The resolution bounds\<close>

text \<open>
  Claim C9 as stated fails on the live controls: with segments 256 x 128, the inputs
  2000 and 100 leave the width at 256, which is not the clamp of 2000.
\<close>

theorem updateSegmentsIfValid_does_not_clamp:
  "width (currentSegments (updateSegmentsIfValid demo (Some 2000) (Some 100))) = 256
   \<and> clampSegment 2000 = 1024
   \<and> width (currentSegments (updateSegmentsIfValid demo (Some 2000) (Some 100))) \<noteq> clampSegment 2000"
  by (simp add: updateSegmentsIfValid_def truthy_def demo_def clampSegment_def)

lemma clampSegment_max_min: "max 8 (min 1024 n) = clampSegment n"
  by (simp add: clampSegment_def max_def min_def)

text \<open>
  Claim C9, amended. \<open>readInitialSegments\<close> clamps each value read (after its default)
  into 8..1024; \<open>updateSegmentsIfValid\<close> takes the two values when both lie in 8..1024 and
  otherwise ignores the update; so both leave the segment counts within 8..1024
  (the second, when they were within bounds before).
\<close>

theorem segments_clamped_or_ignored:
  "(readInitialSegments s (Some (w, h)) =
      s\<lparr>currentSegments := \<lparr> width = clampSegment (orDefault w 256),
                               height = clampSegment (orDefault h 128) \<rparr>\<rparr>)
   \<and> segmentsInBounds (readInitialSegments s (Some (w, h)))
   \<and> readInitialSegments s None = s
   \<and> (\<forall>a b. cw = Some a \<and> ch = Some b \<and> 8 \<le> a \<and> a \<le> 1024 \<and> 8 \<le> b \<and> b \<le> 1024 \<longrightarrow>
          updateSegmentsIfValid s cw ch = s\<lparr>currentSegments := \<lparr> width = a, height = b \<rparr>\<rparr>)
   \<and> (\<not> (\<exists>a b. cw = Some a \<and> ch = Some b \<and> 8 \<le> a \<and> a \<le> 1024 \<and> 8 \<le> b \<and> b \<le> 1024) \<longrightarrow>
          updateSegmentsIfValid s cw ch = s)
   \<and> (segmentsInBounds s \<longrightarrow> segmentsInBounds (updateSegmentsIfValid s cw ch))"
proof -
  have same: "\<And>a b. a = width (currentSegments s) \<Longrightarrow> b = height (currentSegments s) \<Longrightarrow>
      s\<lparr>currentSegments := \<lparr> width = a, height = b \<rparr>\<rparr> = s"
    by (cases s) (auto simp: segments.equality)
  have r: "readInitialSegments s (Some (w, h)) =
      s\<lparr>currentSegments := \<lparr> width = clampSegment (orDefault w 256),
                               height = clampSegment (orDefault h 128) \<rparr>\<rparr>"
    by (simp add: readInitialSegments_def Let_def clampSegment_max_min)
  have rb: "segmentsInBounds (readInitialSegments s (Some (w, h)))"
    by (simp add: r segmentsInBounds_def clampSegment_def)
  have u1: "\<forall>a b. cw = Some a \<and> ch = Some b \<and> 8 \<le> a \<and> a \<le> 1024 \<and> 8 \<le> b \<and> b \<le> 1024 \<longrightarrow>
          updateSegmentsIfValid s cw ch = s\<lparr>currentSegments := \<lparr> width = a, height = b \<rparr>\<rparr>"
    by (auto simp: updateSegmentsIfValid_def truthy_def same)
  have u2: "\<not> (\<exists>a b. cw = Some a \<and> ch = Some b \<and> 8 \<le> a \<and> a \<le> 1024 \<and> 8 \<le> b \<and> b \<le> 1024) \<longrightarrow>
          updateSegmentsIfValid s cw ch = s"
    by (cases cw; cases ch) (auto simp: updateSegmentsIfValid_def truthy_def)
  have ub: "segmentsInBounds s \<longrightarrow> segmentsInBounds (updateSegmentsIfValid s cw ch)"
    by (cases cw; cases ch) (auto simp: updateSegmentsIfValid_def truthy_def segmentsInBounds_def)
  show ?thesis using r rb u1 u2 ub by (simp add: readInitialSegments_def)
qed

theorem segments_clamped_or_ignored_witness:
  "segmentsInBounds demo
   \<and> currentSegments (readInitialSegments demo (Some (Some 5000, None))) = \<lparr> width = 1024, height = 128 \<rparr>
   \<and> currentSegments (updateSegmentsIfValid demo (Some 2000) (Some 100)) = \<lparr> width = 256, height = 128 \<rparr>
   \<and> currentSegments (updateSegmentsIfValid demo (Some 64) (Some 32)) = \<lparr> width = 64, height = 32 \<rparr>
   \<and> segmentsInBounds (updateSegmentsIfValid demo (Some 2000) (Some 100))"
proof -
  have b: "segmentsInBounds demo" by (simp add: segmentsInBounds_def demo_def)
  have d: "currentSegments demo = \<lparr> width = 256, height = 128 \<rparr>" by (simp add: demo_def)
  from segments_clamped_or_ignored [of demo "Some 5000" None "Some 2000" "Some 100"]
       segments_clamped_or_ignored [of demo "Some 5000" None "Some 64" "Some 32"]
  show ?thesis using b d by (simp add: clampSegment_def orDefault_def)
qed


section \<open>A change of the clipping direction\<close>

lemma reapply_eq:
  "reapplyClippingToAllLayers s =
     clipIfVisible (clipIfVisible (clipIfVisible
       (restoreOriginalGeometry (restoreOriginalGeometry (restoreOriginalGeometry s ''crust'')
          ''mantle'') ''core'') ''crust'') ''mantle'') ''core''"
  by (simp add: reapplyClippingToAllLayers_def clipIfVisible_def layerMesh_def Let_def)

lemma restore_uuid:
  "map_option uuid (layerMesh (restoreOriginalGeometry s l0) l) = map_option uuid (layerMesh s l)"
proof (cases "layerMesh s l0")
  case None
  then show ?thesis by (simp add: restore_absent)
next
  case (Some m0)
  then show ?thesis
    by (cases "isWebGPURenderer s") (auto simp: restore_webgpu restore_webgl layerMesh_putLayer)
qed

lemma clip_cases:
  assumes "isWebGPURenderer s"
  shows "clipSphereWithPolygon s l0 = s
       \<or> (\<exists>poly pl m0. clippingPolygon s = Some poly \<and> calculateClippingPlane poly = Some pl
             \<and> layerMesh s l0 = Some m0)"
  by (auto simp: clipSphereWithPolygon_def split: option.splits)

lemma clip_uuid:
  assumes "isWebGPURenderer s"
  shows "map_option uuid (layerMesh (clipSphereWithPolygon s l0) l) = map_option uuid (layerMesh s l)"
proof -
  from clip_cases [OF assms, of l0] show ?thesis
  proof
    assume "clipSphereWithPolygon s l0 = s"
    then show ?thesis by simp
  next
    assume "\<exists>poly pl m0. clippingPolygon s = Some poly \<and> calculateClippingPlane poly = Some pl
             \<and> layerMesh s l0 = Some m0"
    then obtain poly pl m0 where p: "clippingPolygon s = Some poly"
        "calculateClippingPlane poly = Some pl" "layerMesh s l0 = Some m0" by blast
    show ?thesis
      using p(3) by (simp add: clip_webgpu [OF assms p] layerMesh_putLayer)
  qed
qed

lemma distinctUuids_cong:
  assumes same: "\<And>l. map_option uuid (layerMesh s' l) = map_option uuid (layerMesh s l)"
    and d: "distinctUuids s"
  shows "distinctUuids s'"
  unfolding distinctUuids_def
proof (intro allI impI)
  fix l1 l2 m1 m2
  assume a: "layerMesh s' l1 = Some m1 \<and> layerMesh s' l2 = Some m2 \<and> l1 \<noteq> l2"
  from a same [of l1] obtain n1 where n1: "layerMesh s l1 = Some n1" "uuid n1 = uuid m1"
    by (cases "layerMesh s l1") auto
  from a same [of l2] obtain n2 where n2: "layerMesh s l2 = Some n2" "uuid n2 = uuid m2"
    by (cases "layerMesh s l2") auto
  from d n1(1) n2(1) a have "uuid n1 \<noteq> uuid n2" unfolding distinctUuids_def by blast
  then show "uuid m1 \<noteq> uuid m2" using n1(2) n2(2) by simp
qed

lemma gpuContext_restore:
  assumes "gpuContext poly dir s"
  shows "gpuContext poly dir (restoreOriginalGeometry s l0)"
proof -
  have gpu: "isWebGPURenderer s" using assms by (simp add: gpuContext_def)
  have "distinctUuids (restoreOriginalGeometry s l0)"
    using assms by (intro distinctUuids_cong [OF restore_uuid]) (simp add: gpuContext_def)
  moreover have "isWebGPURenderer (restoreOriginalGeometry s l0)
      \<and> clippingPolygon (restoreOriginalGeometry s l0) = clippingPolygon s
      \<and> clippingDirection (restoreOriginalGeometry s l0) = clippingDirection s"
    using gpu by (cases "layerMesh s l0") (simp_all add: restore_absent restore_webgpu)
  ultimately show ?thesis using assms by (simp add: gpuContext_def)
qed

lemma gpuContext_clip:
  assumes "gpuContext poly dir s"
  shows "gpuContext poly dir (clipIfVisible s l0)"
proof (cases "clipIfVisible s l0 = s")
  case True
  then show ?thesis using assms by simp
next
  case False
  have gpu: "isWebGPURenderer s" using assms by (simp add: gpuContext_def)
  from False have c: "clipIfVisible s l0 = clipSphereWithPolygon s l0" "clipSphereWithPolygon s l0 \<noteq> s"
    by (auto simp: clipIfVisible_def split: if_splits)
  with clip_cases [OF gpu, of l0] obtain p pl m0 where p: "clippingPolygon s = Some p"
      "calculateClippingPlane p = Some pl" "layerMesh s l0 = Some m0" by blast
  have "distinctUuids (clipSphereWithPolygon s l0)"
    using assms by (intro distinctUuids_cong [OF clip_uuid [OF gpu]]) (simp add: gpuContext_def)
  moreover have "isWebGPURenderer (clipSphereWithPolygon s l0)
      \<and> clippingPolygon (clipSphereWithPolygon s l0) = clippingPolygon s
      \<and> clippingDirection (clipSphereWithPolygon s l0) = clippingDirection s"
    using gpu by (simp add: clip_webgpu [OF gpu p])
  ultimately show ?thesis using assms c by (simp add: gpuContext_def)
qed

lemma other_uuid:
  "distinctUuids s \<Longrightarrow> layerMesh s l = Some m \<Longrightarrow> layerMesh s l0 = Some m0 \<Longrightarrow> l \<noteq> l0 \<Longrightarrow>
   uuid m0 \<noteq> uuid m"
  unfolding distinctUuids_def by blast

lemma frame_restore:
  assumes t: "tracked poly dir s l m og cp" and ne: "l \<noteq> l0"
  shows "tracked poly dir (restoreOriginalGeometry s l0) l m og cp"
proof -
  have g: "gpuContext poly dir s" and h: "layerHolds s l m og cp"
    using t by (simp_all add: tracked_def)
  have gpu: "isWebGPURenderer s" and d: "distinctUuids s" using g by (simp_all add: gpuContext_def)
  have "layerHolds (restoreOriginalGeometry s l0) l m og cp"
  proof (cases "layerMesh s l0")
    case None
    then show ?thesis using h by (simp add: restore_absent)
  next
    case (Some m0)
    have "uuid m0 \<noteq> uuid m" using other_uuid [OF d _ Some ne] h by (simp add: layerHolds_def)
    then show ?thesis
      using h ne Some by (simp add: layerHolds_def restore_webgpu [OF gpu Some] layerMesh_putLayer)
  qed
  then show ?thesis using gpuContext_restore [OF g] by (simp add: tracked_def)
qed

lemma frame_clip:
  assumes t: "tracked poly dir s l m og cp" and ne: "l \<noteq> l0"
  shows "tracked poly dir (clipIfVisible s l0) l m og cp"
proof -
  have g: "gpuContext poly dir s" and h: "layerHolds s l m og cp"
    using t by (simp_all add: tracked_def)
  have gpu: "isWebGPURenderer s" and d: "distinctUuids s" using g by (simp_all add: gpuContext_def)
  have "layerHolds (clipIfVisible s l0) l m og cp"
  proof (cases "clipIfVisible s l0 = s")
    case True
    then show ?thesis using h by simp
  next
    case False
    then have c: "clipIfVisible s l0 = clipSphereWithPolygon s l0" "clipSphereWithPolygon s l0 \<noteq> s"
      by (auto simp: clipIfVisible_def split: if_splits)
    with clip_cases [OF gpu, of l0] obtain p pl m0 where p: "clippingPolygon s = Some p"
        "calculateClippingPlane p = Some pl" "layerMesh s l0 = Some m0" by blast
    have "uuid m0 \<noteq> uuid m" using other_uuid [OF d _ p(3) ne] h by (simp add: layerHolds_def)
    then show ?thesis
      using h ne p(3) by (simp add: c(1) layerHolds_def clip_webgpu [OF gpu p] layerMesh_putLayer)
  qed
  then show ?thesis using gpuContext_clip [OF g] by (simp add: tracked_def)
qed

lemma own_restore:
  assumes t: "tracked poly dir s l m og cp"
  shows "tracked poly dir (restoreOriginalGeometry s l) l
           (m\<lparr>geometry := (case og of Some g \<Rightarrow> g | None \<Rightarrow> geometry m)\<rparr>) og None"
proof -
  have g: "gpuContext poly dir s" and h: "layerHolds s l m og cp"
    using t by (simp_all add: tracked_def)
  have gpu: "isWebGPURenderer s" using g by (simp add: gpuContext_def)
  have m: "layerMesh s l = Some m" using h by (simp add: layerHolds_def)
  have "layerHolds (restoreOriginalGeometry s l) l
           (m\<lparr>geometry := (case og of Some g \<Rightarrow> g | None \<Rightarrow> geometry m)\<rparr>) og None"
    using h by (auto simp: layerHolds_def restore_webgpu [OF gpu m] layerMesh_putLayer
                  pristineGeometry_def)
  then show ?thesis using gpuContext_restore [OF g] by (simp add: tracked_def)
qed

lemma own_clip:
  assumes t: "tracked poly dir s l m og cp" and pl: "calculateClippingPlane poly = Some pl"
  shows "tracked poly dir (clipIfVisible s l) l
           (if visible m
            then m\<lparr>geometry := clipGeometry dir pl (case og of Some g \<Rightarrow> g | None \<Rightarrow> geometry m)\<rparr>
            else m)
           (if visible m then Some (case og of Some g \<Rightarrow> g | None \<Rightarrow> geometry m) else og)
           (if visible m
            then Some ((case cp of None \<Rightarrow> [] | Some x \<Rightarrow> x)
                       @ [\<lparr> plane_normal = plane_normal pl, plane_d = plane_d pl, direction = dir \<rparr>])
            else cp)"
proof -
  have g: "gpuContext poly dir s" and h: "layerHolds s l m og cp"
    using t by (simp_all add: tracked_def)
  have gpu: "isWebGPURenderer s" and p: "clippingPolygon s = Some poly"
    and dir: "clippingDirection s = dir" using g by (simp_all add: gpuContext_def)
  have m: "layerMesh s l = Some m" using h by (simp add: layerHolds_def)
  have "layerHolds (clipIfVisible s l) l
           (if visible m
            then m\<lparr>geometry := clipGeometry dir pl (case og of Some g \<Rightarrow> g | None \<Rightarrow> geometry m)\<rparr>
            else m)
           (if visible m then Some (case og of Some g \<Rightarrow> g | None \<Rightarrow> geometry m) else og)
           (if visible m
            then Some ((case cp of None \<Rightarrow> [] | Some x \<Rightarrow> x)
                       @ [\<lparr> plane_normal = plane_normal pl, plane_d = plane_d pl, direction = dir \<rparr>])
            else cp)"
  proof (cases "visible m")
    case True
    then have c: "clipIfVisible s l = clipSphereWithPolygon s l"
      using m by (simp add: clipIfVisible_def presentVisible_def)
    show ?thesis
      using h True dir
      by (auto simp: c layerHolds_def clip_webgpu [OF gpu p pl m] layerMesh_putLayer
            pristineGeometry_def storedPlanes_def)
  next
    case False
    then have "clipIfVisible s l = s" using m by (simp add: clipIfVisible_def presentVisible_def)
    then show ?thesis using h False by simp
  qed
  then show ?thesis using gpuContext_clip [OF g] by (simp add: tracked_def)
qed

lemma layerMesh_valid:
  "layerMesh s l = Some m \<Longrightarrow> l = ''crust'' \<or> l = ''mantle'' \<or> l = ''core''"
  by (auto simp: layerMesh_def split: if_splits)

lemma reapply_tracked:
  assumes t: "tracked poly dir s l m og cp" and pl: "calculateClippingPlane poly = Some pl"
  shows "tracked poly dir (reapplyClippingToAllLayers s) l
           (if visible m
            then m\<lparr>geometry := clipGeometry dir pl (case og of Some g \<Rightarrow> g | None \<Rightarrow> geometry m)\<rparr>
            else m\<lparr>geometry := (case og of Some g \<Rightarrow> g | None \<Rightarrow> geometry m)\<rparr>)
           (if visible m then Some (case og of Some g \<Rightarrow> g | None \<Rightarrow> geometry m) else og)
           (if visible m
            then Some [\<lparr> plane_normal = plane_normal pl, plane_d = plane_d pl, direction = dir \<rparr>]
            else None)"
proof -
  let ?p = "case og of Some g \<Rightarrow> g | None \<Rightarrow> geometry m"
  let ?r = "m\<lparr>geometry := ?p\<rparr>"
  have m: "layerMesh s l = Some m" using t by (simp add: tracked_def layerHolds_def)
  have own: "\<And>s0. tracked poly dir s0 l ?r og None \<Longrightarrow>
      tracked poly dir (clipIfVisible s0 l) l
        (if visible m then m\<lparr>geometry := clipGeometry dir pl ?p\<rparr> else ?r)
        (if visible m then Some ?p else og)
        (if visible m
         then Some [\<lparr> plane_normal = plane_normal pl, plane_d = plane_d pl, direction = dir \<rparr>]
         else None)"
  proof -
    fix s0 assume a: "tracked poly dir s0 l ?r og None"
    have "(case og of Some g \<Rightarrow> g | None \<Rightarrow> geometry ?r) = ?p" by (cases og) simp_all
    with own_clip [OF a pl] show "tracked poly dir (clipIfVisible s0 l) l
        (if visible m then m\<lparr>geometry := clipGeometry dir pl ?p\<rparr> else ?r)
        (if visible m then Some ?p else og)
        (if visible m
         then Some [\<lparr> plane_normal = plane_normal pl, plane_d = plane_d pl, direction = dir \<rparr>]
         else None)"
      by (cases "visible m") simp_all
  qed
  from layerMesh_valid [OF m] show ?thesis
  proof (elim disjE)
    assume l: "l = ''crust''"
    have ne: "l \<noteq> ''mantle''" "l \<noteq> ''core''" using l by simp_all
    note own_restore [OF t]
    note frame_restore [OF this ne(1)]
    note frame_restore [OF this ne(2)]
    note own [OF this]
    note frame_clip [OF this ne(1)]
    note frame_clip [OF this ne(2)]
    then show ?thesis by (simp add: reapply_eq l)
  next
    assume l: "l = ''mantle''"
    have ne: "l \<noteq> ''crust''" "l \<noteq> ''core''" using l by simp_all
    note frame_restore [OF t ne(1)]
    note own_restore [OF this]
    note frame_restore [OF this ne(2)]
    note frame_clip [OF this ne(1)]
    note own [OF this]
    note frame_clip [OF this ne(2)]
    then show ?thesis by (simp add: reapply_eq l)
  next
    assume l: "l = ''core''"
    have ne: "l \<noteq> ''crust''" "l \<noteq> ''mantle''" using l by simp_all
    note frame_restore [OF t ne(1)]
    note frame_restore [OF this ne(2)]
    note own_restore [OF this]
    note frame_clip [OF this ne(1)]
    note frame_clip [OF this ne(2)]
    note own [OF this]
    then show ?thesis by (simp add: reapply_eq l)
  qed
qed

text \<open>
  Claim C8, amended. Under the WebGPU renderer, with a clipping polygon of at least three
  points, a change of the clipping direction restores every layer and then re-clips
  every layer that is present and visible, enrolled or not: a visible layer ends with
  the clipping of its pristine geometry in the new direction and one stored plane
  record, an invisible layer ends restored to its pristine geometry with none.
\<close>

theorem direction_change_reclips_visible_layers:
  assumes gpu: "isWebGPURenderer s"
    and poly: "clippingPolygon s = Some poly"
    and pl: "calculateClippingPlane poly = Some pl"
    and dist: "distinctUuids s"
    and mesh: "layerMesh s l = Some m"
    and after: "s' = onClippingDirectionChange s dir"
  shows "clippingDirection s' = dir
       \<and> layerMesh s' l =
           Some (m\<lparr>geometry := (if visible m then clipGeometry dir pl (pristineGeometry s m)
                                else pristineGeometry s m)\<rparr>)
       \<and> clippingPlanes s' (uuid m) =
           (if visible m
            then Some [\<lparr> plane_normal = plane_normal pl, plane_d = plane_d pl, direction = dir \<rparr>]
            else None)"
proof -
  let ?s0 = "s\<lparr>clippingDirection := dir\<rparr>"
  have d0: "distinctUuids ?s0"
    by (rule distinctUuids_cong [OF _ dist]) simp
  have t0: "tracked poly dir ?s0 l m (originalGeometries s (uuid m)) (clippingPlanes s (uuid m))"
    using gpu poly mesh d0 by (simp add: tracked_def gpuContext_def layerHolds_def)
  from reapply_tracked [OF t0 pl] show ?thesis
    by (cases "visible m")
       (simp_all add: after onClippingDirectionChange_def tracked_def gpuContext_def layerHolds_def
          pristineGeometry_def)
qed

lemma distinctUuids_demo: "distinctUuids demo"
  unfolding distinctUuids_def
  by (auto simp: layerMesh_def demo_def crustMesh_def mantleMesh_def coreMesh_def split: if_splits)

lemma clipGeometry_tetra_inside:
  "clipGeometry ''inside'' flatPlane tetra = \<lparr> positions = [Vector3 0 0 (- 1)], index = None \<rparr>"
  by (simp add: clipGeometry_eq keptTriangles_def allVisible_def shouldShow_def flatPlane_def
        tetra_def dot_def)

text \<open>
  Claim C8 as stated fails: in the small scene no layer is enrolled and real-time
  clipping is off, yet after a change of direction the crust is clipped.
\<close>

theorem direction_change_clips_unenrolled_layer:
  "\<not> clipCrust demo \<and> \<not> realtimeClipping demo
   \<and> map_option geometry (layerMesh demo ''crust'') = Some tetra
   \<and> map_option geometry (layerMesh (onClippingDirectionChange demo ''inside'') ''crust'')
       = Some \<lparr> positions = [Vector3 0 0 (- 1)], index = None \<rparr>"
proof -
  let ?s0 = "demo\<lparr>clippingDirection := ''inside''\<rparr>"
  have d0: "distinctUuids ?s0"
    by (rule distinctUuids_cong [OF _ distinctUuids_demo]) simp
  have t0: "tracked flatPolygon ''inside'' ?s0 ''crust'' crustMesh None None"
    using d0
    by (simp add: tracked_def gpuContext_def layerHolds_def demo_fields)
       (simp add: demo_def crustMesh_def)
  have v: "visible crustMesh" "geometry crustMesh = tetra" by (simp_all add: crustMesh_def)
  from reapply_tracked [OF t0 calculateClippingPlane_flat]
  have "layerMesh (onClippingDirectionChange demo ''inside'') ''crust''
      = Some (crustMesh\<lparr>geometry := clipGeometry ''inside'' flatPlane tetra\<rparr>)"
    by (simp add: onClippingDirectionChange_def tracked_def layerHolds_def v)
  then show ?thesis
    by (simp add: clipGeometry_tetra_inside demo_fields v) (simp add: demo_def)
qed

theorem direction_change_reclips_visible_layers_witness:
  "isWebGPURenderer demo \<and> clippingPolygon demo = Some flatPolygon
   \<and> calculateClippingPlane flatPolygon = Some flatPlane \<and> distinctUuids demo
   \<and> layerMesh demo ''mantle'' = Some mantleMesh \<and> layerMesh demo ''core'' = Some coreMesh
   \<and> visible mantleMesh \<and> \<not> visible coreMesh
   \<and> layerMesh (onClippingDirectionChange demo ''inside'') ''mantle''
       = Some (mantleMesh\<lparr>geometry := \<lparr> positions = [Vector3 0 0 (- 1)], index = None \<rparr>\<rparr>)
   \<and> layerMesh (onClippingDirectionChange demo ''inside'') ''core'' = Some coreMesh"
proof -
  have f: "layerMesh demo ''mantle'' = Some mantleMesh" "layerMesh demo ''core'' = Some coreMesh"
    "visible mantleMesh" "\<not> visible coreMesh"
    "pristineGeometry demo mantleMesh = tetra" "pristineGeometry demo coreMesh = geometry coreMesh"
    by (simp_all add: layerMesh_def demo_def mantleMesh_def coreMesh_def pristineGeometry_def)
  have same: "coreMesh\<lparr>geometry := geometry coreMesh\<rparr> = coreMesh" by (cases coreMesh) simp
  from direction_change_reclips_visible_layers
         [OF demo_fields(1) demo_fields(3) calculateClippingPlane_flat distinctUuids_demo f(1) refl,
          of "''inside''"]
       direction_change_reclips_visible_layers
         [OF demo_fields(1) demo_fields(3) calculateClippingPlane_flat distinctUuids_demo f(2) refl,
          of "''inside''"]
  show ?thesis
    by (simp add: f same clipGeometry_tetra_inside demo_fields calculateClippingPlane_flat
          distinctUuids_demo)
qed


section \<open>The stored original geometry is never overwritten\<close>

lemma stable_refl: "stable s s"
  by (simp add: stable_def)

lemma stable_trans: "stable s s1 \<Longrightarrow> stable s1 s2 \<Longrightarrow> stable s s2"
  by (simp add: stable_def)

lemma clip_cases_any:
  "clipSphereWithPolygon s l0 = s
   \<or> (\<exists>poly pl m0. clippingPolygon s = Some poly \<and> calculateClippingPlane poly = Some pl
         \<and> layerMesh s l0 = Some m0)"
  by (auto simp: clipSphereWithPolygon_def split: option.splits)

lemma stable_clip: "stable s (clipSphereWithPolygon s l0)"
proof -
  from clip_cases_any [of s l0] show ?thesis
  proof
    assume "clipSphereWithPolygon s l0 = s"
    then show ?thesis by (simp add: stable_refl)
  next
    assume "\<exists>poly pl m0. clippingPolygon s = Some poly \<and> calculateClippingPlane poly = Some pl
         \<and> layerMesh s l0 = Some m0"
    then obtain poly pl m0 where p: "clippingPolygon s = Some poly"
        "calculateClippingPlane poly = Some pl" "layerMesh s l0 = Some m0" by blast
    show ?thesis
    proof (cases "isWebGPURenderer s")
      case True
      show ?thesis
        using p(3) True
        by (auto simp: stable_def clip_webgpu [OF True p] layerMesh_putLayer pristineGeometry_def)
    next
      case False
      show ?thesis
        using p(3) False
        by (auto simp: stable_def clip_webgl [OF False p] layerMesh_putLayer)
    qed
  qed
qed

lemma stable_restore: "stable s (restoreOriginalGeometry s l0)"
proof (cases "layerMesh s l0")
  case None
  then show ?thesis by (simp add: restore_absent stable_refl)
next
  case (Some m0)
  show ?thesis
  proof (cases "isWebGPURenderer s")
    case True
    show ?thesis using Some True
      by (auto simp: stable_def restore_webgpu [OF True Some] layerMesh_putLayer)
  next
    case False
    show ?thesis using Some False
      by (auto simp: stable_def restore_webgl [OF False Some] layerMesh_putLayer)
  qed
qed

lemma updateMaterialClipping_cases:
  "updateMaterialClipping s l0 = s
   \<or> (\<exists>m0 mat. layerMesh s l0 = Some m0
         \<and> updateMaterialClipping s l0 = putLayer s l0 (m0\<lparr>material := mat\<rparr>))"
  by (auto simp: updateMaterialClipping_def Let_def split: option.splits)

lemma stable_updateMaterial: "stable s (updateMaterialClipping s l0)"
proof -
  from updateMaterialClipping_cases [of s l0] show ?thesis
  proof
    assume "updateMaterialClipping s l0 = s"
    then show ?thesis by (simp add: stable_refl)
  next
    assume "\<exists>m0 mat. layerMesh s l0 = Some m0
         \<and> updateMaterialClipping s l0 = putLayer s l0 (m0\<lparr>material := mat\<rparr>)"
    then obtain m0 mat where p: "layerMesh s l0 = Some m0"
        "updateMaterialClipping s l0 = putLayer s l0 (m0\<lparr>material := mat\<rparr>)" by blast
    show ?thesis using p(1) by (auto simp: stable_def p(2) layerMesh_putLayer)
  qed
qed

lemma stable_editTerrain: "stable s (editTerrain s hit)"
  by (auto simp: stable_def editTerrain_def layerMesh_def split: option.splits)

lemma stable_setPolygon: "stable s (s\<lparr>clippingPolygon := polygon\<rparr>)"
  by (simp add: stable_def)

lemma stable_setDirection: "stable s (s\<lparr>clippingDirection := v\<rparr>)"
  by (simp add: stable_def)

lemma stable_if: "stable s (f s) \<Longrightarrow> stable s (if c then f s else s)"
  by (simp add: stable_refl)

lemma stable_restoreAll: "stable s (restoreAllLayers s)"
  unfolding restoreAllLayers_def
  by (rule stable_trans [OF stable_trans [OF stable_restore stable_restore] stable_restore])

lemma stable_clipIfVisible: "stable s (clipIfVisible s l0)"
  by (simp add: clipIfVisible_def stable_clip stable_refl)

lemma stable_reapply: "stable s (reapplyClippingToAllLayers s)"
  unfolding reapply_eq
  by (rule stable_trans [OF stable_trans [OF stable_trans [OF stable_trans [OF stable_trans
        [OF stable_restore stable_restore] stable_restore] stable_clipIfVisible]
        stable_clipIfVisible] stable_clipIfVisible])

lemma stable_then_clip: "stable s s1 \<Longrightarrow> stable s (clipSphereWithPolygon s1 l0)"
  by (rule stable_trans [OF _ stable_clip])

lemma stable_then_update: "stable s s1 \<Longrightarrow> stable s (updateMaterialClipping s1 l0)"
  by (rule stable_trans [OF _ stable_updateMaterial])

lemma stable_if2: "stable s a \<Longrightarrow> stable s b \<Longrightarrow> stable s (if c then a else b)"
  by simp

lemma stable_applySelected: "stable s (applyClippingToSelectedLayers s)"
  unfolding applyClippingToSelectedLayers_def Let_def
  by (intro stable_if2 stable_then_clip stable_refl)

lemma stable_realtime: "stable s (applyRealtimeClipping s)"
  unfolding applyRealtimeClipping_def Let_def
  by (intro stable_if2 stable_then_clip stable_then_update stable_refl)

lemma stable_perform: "stable s (perform a s)"
proof (cases a)
  case (ChangeDirection v)
  then show ?thesis
    by (simp add: onClippingDirectionChange_def stable_trans [OF stable_setDirection stable_reapply])
qed (simp_all add: stable_clip stable_restore stable_restoreAll stable_applySelected
       stable_realtime stable_editTerrain stable_setPolygon)

lemma stable_run: "stable s (run acts s)"
proof (induction acts arbitrary: s)
  case Nil
  show ?case by (simp add: stable_refl)
next
  case (Cons a acts)
  show ?case using stable_trans [OF stable_perform Cons.IH] by simp
qed

lemma originalGeometries_applyGeometryClipping:
  "originalGeometries (fst (applyGeometryClipping s0 m0 pl0)) =
     (case originalGeometries s0 (uuid m0) of
        None \<Rightarrow> (originalGeometries s0)(uuid m0 \<mapsto> geometry m0)
      | Some _ \<Rightarrow> originalGeometries s0)"
  by (simp add: applyGeometryClipping_def Let_def split: option.splits)

lemma originalGeometries_restore:
  "originalGeometries (restoreOriginalGeometry s0 l0) = originalGeometries s0"
  by (simp add: restoreOriginalGeometry_def Let_def split: option.splits)

lemma originalGeometries_editTerrain:
  "originalGeometries (editTerrain s0 hit) = originalGeometries s0"
  by (simp add: editTerrain_def split: option.splits)

text \<open>
  Claim C10. Under the geometry-partition strategy, once an original geometry is stored
  for a layer's mesh, it is still stored, unchanged, after any sequence of clippings,
  restorations, direction changes, polygon changes and brush strokes; a restoration of
  the layer then installs exactly that geometry and a clipping installs the clipping of
  exactly that geometry, whatever the brush did to the mesh in between. The store is only
  written by a clipping application to a mesh that has no entry yet (which stores the
  mesh's geometry of that moment); restoring and sculpting never write it.
\<close>

theorem snapshot_survives:
  assumes gpu: "isWebGPURenderer s"
    and mesh: "layerMesh s l = Some m"
    and snap: "originalGeometries s (uuid m) = Some g"
    and later: "s1 = run acts s"
  shows "originalGeometries s1 (uuid m) = Some g
       \<and> (\<exists>m1. layerMesh s1 l = Some m1 \<and> uuid m1 = uuid m
              \<and> layerMesh (restoreOriginalGeometry s1 l) l = Some (m1\<lparr>geometry := g\<rparr>)
              \<and> (\<forall>poly pl. clippingPolygon s1 = Some poly \<and> calculateClippingPlane poly = Some pl \<longrightarrow>
                     layerMesh (clipSphereWithPolygon s1 l) l
                       = Some (m1\<lparr>geometry := clipGeometry (clippingDirection s1) pl g\<rparr>))
              \<and> (\<forall>pl. applyGeometryClipping s1 m1 pl
                       = (s1, m1\<lparr>geometry := clipGeometry (clippingDirection s1) pl g\<rparr>)))
       \<and> originalGeometries (fst (applyGeometryClipping s0 m0 pl0)) =
             (case originalGeometries s0 (uuid m0) of
                None \<Rightarrow> (originalGeometries s0)(uuid m0 \<mapsto> geometry m0)
              | Some _ \<Rightarrow> originalGeometries s0)
       \<and> originalGeometries (restoreOriginalGeometry s0 l0) = originalGeometries s0
       \<and> originalGeometries (editTerrain s0 hit) = originalGeometries s0"
proof -
  have st: "stable s s1" unfolding later by (rule stable_run)
  have gpu1: "isWebGPURenderer s1" using st gpu by (simp add: stable_def)
  have snap1: "originalGeometries s1 (uuid m) = Some g" using st snap by (simp add: stable_def)
  have "map_option uuid (layerMesh s1 l) = Some (uuid m)"
    using st mesh by (simp add: stable_def)
  then obtain m1 where m1: "layerMesh s1 l = Some m1" "uuid m1 = uuid m"
    by (cases "layerMesh s1 l") auto
  have pr: "pristineGeometry s1 m1 = g" using snap1 m1(2) by (simp add: pristineGeometry_def)
  have r: "layerMesh (restoreOriginalGeometry s1 l) l = Some (m1\<lparr>geometry := g\<rparr>)"
    using m1(1) by (simp add: restore_webgpu [OF gpu1 m1(1)] layerMesh_putLayer pr)
  have c: "\<forall>poly pl. clippingPolygon s1 = Some poly \<and> calculateClippingPlane poly = Some pl \<longrightarrow>
      layerMesh (clipSphereWithPolygon s1 l) l
        = Some (m1\<lparr>geometry := clipGeometry (clippingDirection s1) pl g\<rparr>)"
    using m1(1) gpu1 by (auto simp: clip_webgpu layerMesh_putLayer pr)
  have "(originalGeometries s1)(uuid m1 \<mapsto> g) = originalGeometries s1"
    using snap1 m1(2) by (simp add: map_upd_triv)
  then have a: "\<forall>pl. applyGeometryClipping s1 m1 pl
      = (s1, m1\<lparr>geometry := clipGeometry (clippingDirection s1) pl g\<rparr>)"
    by (simp add: applyGeometryClipping_eq pr)
  show ?thesis
    using snap1 m1 r c a
    by (simp add: originalGeometries_applyGeometryClipping originalGeometries_restore
          originalGeometries_editTerrain)
qed

lemma clippedScene_fields:
  "isWebGPURenderer clippedScene"
  "layerMesh clippedScene ''crust'' = Some (crustMesh\<lparr>geometry := tetraTop\<rparr>)"
  "originalGeometries clippedScene (uuid crustMesh) = Some tetra"
  "crust clippedScene = Some (crustMesh\<lparr>geometry := tetraTop\<rparr>)"
  "brushSize clippedScene = 1 / 2" "mode clippedScene = ''extrude''" "intensity clippedScene = 2"
proof -
  let ?d = "demo\<lparr>brushSize := 1 / 2\<rparr>"
  have f: "isWebGPURenderer ?d" "clippingPolygon ?d = Some flatPolygon"
    "layerMesh ?d ''crust'' = Some crustMesh" "clippingDirection ?d = ''outside''"
    "pristineGeometry ?d crustMesh = tetra"
    by (simp_all add: demo_fields pristineGeometry_def layerMesh_def)
       (simp_all add: demo_def crustMesh_def)
  note c = clip_webgpu [OF f(1) f(2) calculateClippingPlane_flat f(3)]
  show "isWebGPURenderer clippedScene"
    by (simp add: clippedScene_def c demo_fields)
  show l: "layerMesh clippedScene ''crust'' = Some (crustMesh\<lparr>geometry := tetraTop\<rparr>)"
    by (simp add: clippedScene_def c f layerMesh_putLayer clipGeometry_tetra)
  show "originalGeometries clippedScene (uuid crustMesh) = Some tetra"
    by (simp add: clippedScene_def c f)
  show "crust clippedScene = Some (crustMesh\<lparr>geometry := tetraTop\<rparr>)"
    using l by (simp add: layerMesh_def)
  show "brushSize clippedScene = 1 / 2" "mode clippedScene = ''extrude''"
    "intensity clippedScene = 2"
    by (simp_all add: clippedScene_def c) (simp_all add: demo_def)
qed

lemma clippedScene_sculpt:
  "map (sculptVertex clippedScene (Vector3 0 0 1)) (positions tetraTop)
     = [Vector3 0 0 3, Vector3 1 0 1, Vector3 0 1 1]"
  by (simp add: tetraTop_def sculptVertex_def clippedScene_fields distanceTo_def sub_def
        vlength_def normalize_def multiplyScalar_def add_def)

theorem snapshot_survives_witness:
  "isWebGPURenderer clippedScene
   \<and> layerMesh clippedScene ''crust'' = Some (crustMesh\<lparr>geometry := tetraTop\<rparr>)
   \<and> originalGeometries clippedScene (uuid crustMesh) = Some tetra
   \<and> map_option (positions \<circ> geometry)
         (layerMesh (run [Sculpt (Some (Vector3 0 0 1))] clippedScene) ''crust'')
       = Some [Vector3 0 0 3, Vector3 1 0 1, Vector3 0 1 1]
   \<and> map_option geometry
         (layerMesh (restoreOriginalGeometry (run [Sculpt (Some (Vector3 0 0 1))] clippedScene)
            ''crust'') ''crust'')
       = Some tetra"
proof -
  have u: "uuid (crustMesh\<lparr>geometry := tetraTop\<rparr>) = uuid crustMesh" by simp
  have e: "map_option (positions \<circ> geometry)
         (layerMesh (run [Sculpt (Some (Vector3 0 0 1))] clippedScene) ''crust'')
       = Some [Vector3 0 0 3, Vector3 1 0 1, Vector3 0 1 1]"
    by (simp add: editTerrain_def clippedScene_fields layerMesh_def clippedScene_sculpt)
  from snapshot_survives [OF clippedScene_fields(1) clippedScene_fields(2)
         clippedScene_fields(3) [folded u] refl, of "[Sculpt (Some (Vector3 0 0 1))]"]
  show ?thesis using e clippedScene_fields(1,2,3) by auto
qed


section \<open>The clipping plane solver and collinear points\<close>

lemma collinear3_cross:
  "collinear3 a b c \<longleftrightarrow> cross (sub b a) (sub c a) = Vector3 0 0 0"
  by (simp add: collinear3_def cross_def sub_def)

lemma calculateClippingPlane_collinear3:
  assumes "collinear3 p0 p1 p2"
  shows "calculateClippingPlane (p0 # p1 # p2 # rest)
           = Some \<lparr> plane_normal = Vector3 0 0 0, plane_d = 0 \<rparr>"
proof -
  have "cross (sub p1 p0) (sub p2 p0) = Vector3 0 0 0"
    using assms by (simp add: collinear3_cross)
  then show ?thesis
    by (simp add: calculateClippingPlane_def Let_def normalize_def vlength_def
          multiplyScalar_def dot_def)
qed

lemma vlength_normalize:
  assumes "v \<noteq> Vector3 0 0 0"
  shows "vlength (normalize v) = 1"
proof -
  have "vlength v \<noteq> 0" using assms vlength_zero_vec by blast
  then show ?thesis
    using vlength_nonneg [of v]
    by (simp add: normalize_def vlength_multiplyScalar)
qed

lemma calculateClippingPlane_unit:
  assumes "\<not> collinear3 p0 p1 p2"
  shows "\<exists>pl. calculateClippingPlane (p0 # p1 # p2 # rest) = Some pl
           \<and> vlength (plane_normal pl) = 1"
proof -
  have "cross (sub p1 p0) (sub p2 p0) \<noteq> Vector3 0 0 0"
    using assms by (simp add: collinear3_cross)
  then show ?thesis
    by (simp add: calculateClippingPlane_def Let_def vlength_normalize)
qed

lemma abort_below_three:
  assumes "clippingPolygon s = None \<or> (\<exists>poly. clippingPolygon s = Some poly \<and> length poly < 3)"
  shows "clipSphereWithPolygon s l = s \<and> updateMaterialClipping s l = s"
  using assms by (auto simp: clipSphereWithPolygon_def updateMaterialClipping_def)

lemma sizedRectangle_corners:
  "sizedRectangle s =
     [corner ((80 * (polygonWidth s / 50)) / 2) ((80 * (polygonHeight s / 50)) / 2),
      corner (- ((80 * (polygonWidth s / 50)) / 2)) ((80 * (polygonHeight s / 50)) / 2),
      corner (- ((80 * (polygonWidth s / 50)) / 2)) (- ((80 * (polygonHeight s / 50)) / 2)),
      corner ((80 * (polygonWidth s / 50)) / 2) (- ((80 * (polygonHeight s / 50)) / 2))]"
  by (simp add: sizedRectangle_def corner_def Let_def)

lemma corner_coords:
  fixes a b :: real
  defines "L \<equiv> sqrt (a * a + b * b + 16)"
  shows "0 < L"
    and "corner a b = Vector3 (a * (80 / L)) (b * (80 / L)) (4 * (80 / L))"
    and "corner (- a) b = Vector3 (- a * (80 / L)) (b * (80 / L)) (4 * (80 / L))"
    and "corner (- a) (- b) = Vector3 (- a * (80 / L)) (- b * (80 / L)) (4 * (80 / L))"
proof -
  have "0 < a * a + b * b + 16"
    by (intro add_nonneg_pos add_nonneg_nonneg) simp_all
  then show pos: "0 < L" by (simp add: L_def)
  then have ne: "L \<noteq> 0" by simp
  show "corner a b = Vector3 (a * (80 / L)) (b * (80 / L)) (4 * (80 / L))"
    using ne by (simp add: corner_def normalize_def vlength_def multiplyScalar_def L_def)
  show "corner (- a) b = Vector3 (- a * (80 / L)) (b * (80 / L)) (4 * (80 / L))"
    using ne by (simp add: corner_def normalize_def vlength_def multiplyScalar_def L_def)
  show "corner (- a) (- b) = Vector3 (- a * (80 / L)) (- b * (80 / L)) (4 * (80 / L))"
    using ne by (simp add: corner_def normalize_def vlength_def multiplyScalar_def L_def)
qed

lemma corners_not_collinear:
  fixes a b :: real
  assumes "a \<noteq> 0" "b \<noteq> 0"
  shows "\<not> collinear3 (corner a b) (corner (- a) b) (corner (- a) (- b))"
proof -
  define k where "k = 80 / sqrt (a * a + b * b + 16)"
  have k: "k \<noteq> 0" using corner_coords(1) [of a b] by (simp add: k_def)
  have c0: "corner a b = Vector3 (a * k) (b * k) (4 * k)"
    and c1: "corner (- a) b = Vector3 (- a * k) (b * k) (4 * k)"
    and c2: "corner (- a) (- b) = Vector3 (- a * k) (- b * k) (4 * k)"
    unfolding k_def by (rule corner_coords)+
  have "(vx (corner (- a) b) - vx (corner a b)) * (vy (corner (- a) (- b)) - vy (corner a b))
          - (vy (corner (- a) b) - vy (corner a b)) * (vx (corner (- a) (- b)) - vx (corner a b))
        = 4 * (a * b * (k * k))"
    unfolding c0 c1 c2 by (simp add: algebra_simps)
  moreover have "4 * (a * b * (k * k)) \<noteq> 0" using assms k by simp
  ultimately show ?thesis unfolding collinear3_def by simp
qed

lemma rot2_zero:
  fixes co si x y :: real
  assumes cs: "co * co + si * si = 1"
  shows "(co * x - si * y = 0 \<and> si * x + co * y = 0) \<longleftrightarrow> (x = 0 \<and> y = 0)"
proof
  assume a: "co * x - si * y = 0 \<and> si * x + co * y = 0"
  have "x = (co * co + si * si) * x" using cs by simp
  also have "\<dots> = co * (co * x - si * y) + si * (si * x + co * y)" by (simp add: algebra_simps)
  also have "\<dots> = 0" using a by simp
  finally have x: "x = 0" .
  have "y = (co * co + si * si) * y" using cs by simp
  also have "\<dots> = co * (si * x + co * y) - si * (co * x - si * y)" by (simp add: algebra_simps)
  also have "\<dots> = 0" using a by simp
  finally have "y = 0" .
  with x show "x = 0 \<and> y = 0" by simp
next
  assume "x = 0 \<and> y = 0"
  then show "co * x - si * y = 0 \<and> si * x + co * y = 0" by simp
qed

lemma iff_first:
  "(P2 \<and> P3 \<longleftrightarrow> Q2 \<and> Q3) \<Longrightarrow>
   ((1::real) * x = 0 \<and> P2 \<and> P3 \<longleftrightarrow> x = 0 \<and> Q2 \<and> Q3)"
  by auto

lemma iff_second:
  "(P1 \<and> P3 \<longleftrightarrow> Q1 \<and> Q3) \<Longrightarrow>
   (P1 \<and> (1::real) * x = 0 \<and> P3 \<longleftrightarrow> Q1 \<and> x = 0 \<and> Q3)"
  by auto

lemma iff_third:
  "(P1 \<and> P2 \<longleftrightarrow> Q1 \<and> Q2) \<Longrightarrow>
   (P1 \<and> P2 \<and> (1::real) * x = 0 \<longleftrightarrow> Q1 \<and> Q2 \<and> x = 0)"
  by auto

lemma rotX_collinear:
  fixes co si :: real
  assumes cs: "co * co + si * si = 1"
  shows "collinear3 (Vector3 a1 (co * a2 - si * a3) (si * a2 + co * a3))
                    (Vector3 b1 (co * b2 - si * b3) (si * b2 + co * b3))
                    (Vector3 c1 (co * c2 - si * c3) (si * c2 + co * c3))
         \<longleftrightarrow> collinear3 (Vector3 a1 a2 a3) (Vector3 b1 b2 b3) (Vector3 c1 c2 c3)"
proof -
  let ?C1 = "(b2 - a2) * (c3 - a3) - (b3 - a3) * (c2 - a2)"
  let ?C2 = "(b3 - a3) * (c1 - a1) - (b1 - a1) * (c3 - a3)"
  let ?C3 = "(b1 - a1) * (c2 - a2) - (b2 - a2) * (c1 - a1)"
  have e1: "(co * b2 - si * b3 - (co * a2 - si * a3)) * (si * c2 + co * c3 - (si * a2 + co * a3))
        - (si * b2 + co * b3 - (si * a2 + co * a3)) * (co * c2 - si * c3 - (co * a2 - si * a3))
      = (co * co + si * si) * ?C1"
    by (simp add: algebra_simps)
  have e2: "(si * b2 + co * b3 - (si * a2 + co * a3)) * (c1 - a1)
        - (b1 - a1) * (si * c2 + co * c3 - (si * a2 + co * a3))
      = co * ?C2 - si * ?C3"
    by (simp add: algebra_simps)
  have e3: "(b1 - a1) * (co * c2 - si * c3 - (co * a2 - si * a3))
        - (co * b2 - si * b3 - (co * a2 - si * a3)) * (c1 - a1)
      = si * ?C2 + co * ?C3"
    by (simp add: algebra_simps)
  show ?thesis
    unfolding collinear3_def vec3.sel e1 e2 e3 cs
    by (rule iff_first [OF rot2_zero [OF cs]])
qed

lemma rotY_collinear:
  fixes co si :: real
  assumes cs: "co * co + si * si = 1"
  shows "collinear3 (Vector3 (co * a1 + si * a3) a2 (- si * a1 + co * a3))
                    (Vector3 (co * b1 + si * b3) b2 (- si * b1 + co * b3))
                    (Vector3 (co * c1 + si * c3) c2 (- si * c1 + co * c3))
         \<longleftrightarrow> collinear3 (Vector3 a1 a2 a3) (Vector3 b1 b2 b3) (Vector3 c1 c2 c3)"
proof -
  let ?C1 = "(b2 - a2) * (c3 - a3) - (b3 - a3) * (c2 - a2)"
  let ?C2 = "(b3 - a3) * (c1 - a1) - (b1 - a1) * (c3 - a3)"
  let ?C3 = "(b1 - a1) * (c2 - a2) - (b2 - a2) * (c1 - a1)"
  have cs': "co * co + (- si) * (- si) = 1" using cs by simp
  have e1: "(b2 - a2) * (- si * c1 + co * c3 - (- si * a1 + co * a3))
        - (- si * b1 + co * b3 - (- si * a1 + co * a3)) * (c2 - a2)
      = co * ?C1 - (- si) * ?C3"
    by (simp add: algebra_simps)
  have e2: "(- si * b1 + co * b3 - (- si * a1 + co * a3)) * (co * c1 + si * c3 - (co * a1 + si * a3))
        - (co * b1 + si * b3 - (co * a1 + si * a3)) * (- si * c1 + co * c3 - (- si * a1 + co * a3))
      = (co * co + si * si) * ?C2"
    by (simp add: algebra_simps)
  have e3: "(co * b1 + si * b3 - (co * a1 + si * a3)) * (c2 - a2)
        - (b2 - a2) * (co * c1 + si * c3 - (co * a1 + si * a3))
      = (- si) * ?C1 + co * ?C3"
    by (simp add: algebra_simps)
  show ?thesis
    unfolding collinear3_def vec3.sel e1 e2 e3 cs
    by (rule iff_second [OF rot2_zero [OF cs']])
qed

lemma rotZ_collinear:
  fixes co si :: real
  assumes cs: "co * co + si * si = 1"
  shows "collinear3 (Vector3 (co * a1 - si * a2) (si * a1 + co * a2) a3)
                    (Vector3 (co * b1 - si * b2) (si * b1 + co * b2) b3)
                    (Vector3 (co * c1 - si * c2) (si * c1 + co * c2) c3)
         \<longleftrightarrow> collinear3 (Vector3 a1 a2 a3) (Vector3 b1 b2 b3) (Vector3 c1 c2 c3)"
proof -
  let ?C1 = "(b2 - a2) * (c3 - a3) - (b3 - a3) * (c2 - a2)"
  let ?C2 = "(b3 - a3) * (c1 - a1) - (b1 - a1) * (c3 - a3)"
  let ?C3 = "(b1 - a1) * (c2 - a2) - (b2 - a2) * (c1 - a1)"
  have e1: "(si * b1 + co * b2 - (si * a1 + co * a2)) * (c3 - a3)
        - (b3 - a3) * (si * c1 + co * c2 - (si * a1 + co * a2))
      = co * ?C1 - si * ?C2"
    by (simp add: algebra_simps)
  have e2: "(b3 - a3) * (co * c1 - si * c2 - (co * a1 - si * a2))
        - (co * b1 - si * b2 - (co * a1 - si * a2)) * (c3 - a3)
      = si * ?C1 + co * ?C2"
    by (simp add: algebra_simps)
  have e3: "(co * b1 - si * b2 - (co * a1 - si * a2)) * (si * c1 + co * c2 - (si * a1 + co * a2))
        - (si * b1 + co * b2 - (si * a1 + co * a2)) * (co * c1 - si * c2 - (co * a1 - si * a2))
      = (co * co + si * si) * ?C3"
    by (simp add: algebra_simps)
  show ?thesis
    unfolding collinear3_def vec3.sel e1 e2 e3 cs
    by (rule iff_third [OF rot2_zero [OF cs]])
qed

lemma applyMatrix4_rotations:
  "applyMatrix4 (Vector3 x y z) (makeRotationX th)
     = Vector3 x (cos th * y - sin th * z) (sin th * y + cos th * z)"
  "applyMatrix4 (Vector3 x y z) (makeRotationY th)
     = Vector3 (cos th * x + sin th * z) y (- sin th * x + cos th * z)"
  "applyMatrix4 (Vector3 x y z) (makeRotationZ th)
     = Vector3 (cos th * x - sin th * y) (sin th * x + cos th * y) z"
  "applyMatrix4 (Vector3 x y z) identity4 = Vector3 x y z"
  by (simp_all add: makeRotationX_def makeRotationY_def makeRotationZ_def identity4_def Let_def)

lemma cos_sin_one: "cos th * cos th + sin th * sin th = (1::real)"
  using sin_cos_squared_add2 [of th] by (simp add: power2_eq_square)

lemma collinear3_rotation:
  "collinear3 (applyMatrix4 a (rotationMatrix axis th)) (applyMatrix4 b (rotationMatrix axis th))
       (applyMatrix4 c (rotationMatrix axis th))
   \<longleftrightarrow> collinear3 a b c"
proof -
  obtain a1 a2 a3 where a: "a = Vector3 a1 a2 a3" by (cases a)
  obtain b1 b2 b3 where b: "b = Vector3 b1 b2 b3" by (cases b)
  obtain c1 c2 c3 where c: "c = Vector3 c1 c2 c3" by (cases c)
  have "rotationMatrix axis th = makeRotationX th \<or> rotationMatrix axis th = makeRotationY th
      \<or> rotationMatrix axis th = makeRotationZ th \<or> rotationMatrix axis th = identity4"
    by (simp add: rotationMatrix_def)
  then show ?thesis
  proof (elim disjE)
    assume r: "rotationMatrix axis th = makeRotationX th"
    show ?thesis unfolding a b c r
      by (simp only: applyMatrix4_rotations rotX_collinear [OF cos_sin_one])
  next
    assume r: "rotationMatrix axis th = makeRotationY th"
    show ?thesis unfolding a b c r
      by (simp only: applyMatrix4_rotations rotY_collinear [OF cos_sin_one])
  next
    assume r: "rotationMatrix axis th = makeRotationZ th"
    show ?thesis unfolding a b c r
      by (simp only: applyMatrix4_rotations rotZ_collinear [OF cos_sin_one])
  next
    assume r: "rotationMatrix axis th = identity4"
    show ?thesis unfolding a b c r
      by (simp only: applyMatrix4_rotations)
  qed
qed

lemma collinear3_moveAlong:
  "collinear3 (moveAlong axis t a) (moveAlong axis t b) (moveAlong axis t c) \<longleftrightarrow> collinear3 a b c"
  by (cases a; cases b; cases c) (simp add: collinear3_def moveAlong_def)

lemma transformPoint_eq:
  "transformPoint s p =
     moveAlong (polygonAxis s) (polygonPosition s)
       (applyMatrix4 p (rotationMatrix (polygonRotationAxis s) (polygonRotation s * pi / 180)))"
  by (simp add: transformPoint_def Let_def moveAlong_zero)

lemma positionPoint_eq:
  "positionPoint s p =
     moveAlong (polygonAxis s) (polygonPosition s)
       (applyMatrix4 p (rotationMatrix (polygonRotationAxis s) (polygonRotation s * pi / 180)))"
  by (simp add: positionPoint_def Let_def applyMatrix4_rotation_zero)

lemma collinear3_transformPoint:
  "collinear3 (transformPoint s a) (transformPoint s b) (transformPoint s c) \<longleftrightarrow> collinear3 a b c"
  by (simp only: transformPoint_eq collinear3_moveAlong collinear3_rotation)

lemma collinear3_positionPoint:
  "collinear3 (positionPoint s a) (positionPoint s b) (positionPoint s c) \<longleftrightarrow> collinear3 a b c"
  by (simp only: positionPoint_eq collinear3_moveAlong collinear3_rotation)

lemma sizedRectangle_not_collinear:
  assumes "polygonWidth s \<noteq> 0" "polygonHeight s \<noteq> 0"
  shows "\<exists>q0 q1 q2 q3. sizedRectangle s = [q0, q1, q2, q3] \<and> \<not> collinear3 q0 q1 q2"
proof -
  have "(80 * (polygonWidth s / 50)) / 2 \<noteq> 0" "(80 * (polygonHeight s / 50)) / 2 \<noteq> 0"
    using assms by simp_all
  from corners_not_collinear [OF this] show ?thesis
    unfolding sizedRectangle_corners by blast
qed

text \<open>
  Claim C2, amended. The solver reports no plane exactly when the polygon has fewer than
  three points, and a clipping invocation on a missing polygon or one of fewer than three
  points leaves the state untouched. Collinear points are not detected: for collinear
  first three points the solver returns the zero normal with offset 0; for any other
  three points it returns a plane with a unit normal. The polygon the editor installs is
  the sized rectangle, whose first three corners are not collinear when width and height
  are not zero, and the rotation and translation of the polygon transformer keep three
  points collinear or not as they were.
\<close>

theorem solver_fails_only_below_three_points:
  "(calculateClippingPlane poly = None \<longleftrightarrow> length poly < 3)
   \<and> (clippingPolygon s = None \<or> (\<exists>q. clippingPolygon s = Some q \<and> length q < 3) \<longrightarrow>
        clipSphereWithPolygon s l = s \<and> updateMaterialClipping s l = s)
   \<and> (collinear3 p0 p1 p2 \<longrightarrow>
        calculateClippingPlane (p0 # p1 # p2 # rest)
          = Some \<lparr> plane_normal = Vector3 0 0 0, plane_d = 0 \<rparr>)
   \<and> (\<not> collinear3 p0 p1 p2 \<longrightarrow>
        (\<exists>pl. calculateClippingPlane (p0 # p1 # p2 # rest) = Some pl
              \<and> radialDistance (plane_normal pl) = 1))
   \<and> clippingPolygon (createSpherePolygon s) = Some (sizedRectangle s)
   \<and> (originalPolygonPoints s \<noteq> None \<longrightarrow>
        clippingPolygon (recreatePolygon s) = Some (sizedRectangle s))
   \<and> (polygonWidth s \<noteq> 0 \<and> polygonHeight s \<noteq> 0 \<longrightarrow>
        (\<exists>q0 q1 q2 q3. sizedRectangle s = [q0, q1, q2, q3] \<and> \<not> collinear3 q0 q1 q2))
   \<and> (collinear3 (transformPoint s p0) (transformPoint s p1) (transformPoint s p2)
        \<longleftrightarrow> collinear3 p0 p1 p2)
   \<and> (collinear3 (positionPoint s p0) (positionPoint s p1) (positionPoint s p2)
        \<longleftrightarrow> collinear3 p0 p1 p2)"
proof -
  have unit: "\<not> collinear3 p0 p1 p2 \<longrightarrow>
        (\<exists>pl. calculateClippingPlane (p0 # p1 # p2 # rest) = Some pl
              \<and> radialDistance (plane_normal pl) = 1)"
    using calculateClippingPlane_unit [of p0 p1 p2 rest]
    by (simp add: vlength_def radialDistance_def power2_eq_square)
  have built: "clippingPolygon (createSpherePolygon s) = Some (sizedRectangle s)"
      "originalPolygonPoints s \<noteq> None \<longrightarrow>
        clippingPolygon (recreatePolygon s) = Some (sizedRectangle s)"
    by (auto simp: createSpherePolygon_def recreatePolygon_def)
  show ?thesis
    using calculateClippingPlane_None_iff [of poly] abort_below_three [of s l]
      calculateClippingPlane_collinear3 [of p0 p1 p2 rest] unit built
      sizedRectangle_not_collinear [of s]
      collinear3_transformPoint [of s p0 p1 p2] collinear3_positionPoint [of s p0 p1 p2]
    by blast
qed

theorem solver_fails_only_below_three_points_witness:
  "clippingPolygon twoPointScene = Some [Vector3 0 0 0, Vector3 1 0 0]
   \<and> calculateClippingPlane [Vector3 0 0 0, Vector3 1 0 0] = None
   \<and> clipSphereWithPolygon twoPointScene ''crust'' = twoPointScene
   \<and> collinear3 (Vector3 0 0 0) (Vector3 1 0 0) (Vector3 2 0 0)
   \<and> calculateClippingPlane collinearPolygon
       = Some \<lparr> plane_normal = Vector3 0 0 0, plane_d = 0 \<rparr>
   \<and> \<not> collinear3 (Vector3 0 0 0) (Vector3 1 0 0) (Vector3 0 1 0)
   \<and> (\<exists>pl. calculateClippingPlane flatPolygon = Some pl \<and> radialDistance (plane_normal pl) = 1)
   \<and> originalPolygonPoints twoPointScene \<noteq> None
   \<and> clippingPolygon (recreatePolygon twoPointScene) = Some (sizedRectangle twoPointScene)
   \<and> polygonWidth twoPointScene \<noteq> 0 \<and> polygonHeight twoPointScene \<noteq> 0
   \<and> (\<exists>q0 q1 q2 q3. sizedRectangle twoPointScene = [q0, q1, q2, q3] \<and> \<not> collinear3 q0 q1 q2)"
proof -
  have f: "clippingPolygon twoPointScene = Some [Vector3 0 0 0, Vector3 1 0 0]"
    "polygonWidth twoPointScene \<noteq> 0" "polygonHeight twoPointScene \<noteq> 0"
    "originalPolygonPoints twoPointScene \<noteq> None"
    by (simp_all add: twoPointScene_def demo_def)
  have c: "collinear3 (Vector3 0 0 0) (Vector3 1 0 0) (Vector3 2 0 0)"
    "\<not> collinear3 (Vector3 0 0 0) (Vector3 1 0 0) (Vector3 0 1 0)"
    by (simp_all add: collinear3_def)
  from solver_fails_only_below_three_points
         [of "[Vector3 0 0 0, Vector3 1 0 0]" twoPointScene "''crust''"
             "Vector3 0 0 0" "Vector3 1 0 0" "Vector3 2 0 0" "[]"]
       solver_fails_only_below_three_points
         [of "[Vector3 0 0 0, Vector3 1 0 0]" twoPointScene "''crust''"
             "Vector3 0 0 0" "Vector3 1 0 0" "Vector3 0 1 0" "[Vector3 1 1 0]"]
  show ?thesis using f c by (simp add: collinearPolygon_def flatPolygon_def)
qed

end
